theory Spec2Isabelle
  imports Main "HOL-Library.Word"
begin

section \<open>The BEF executor test driver\<close>

text \<open>
  A shallow embedding of \<^verbatim>\<open>RunBefExecutor\<close> of
  \<^verbatim>\<open>lib/bef_executor_driver/bef_executor_driver.cc\<close>. The driver opens an input
  file, chooses a host allocator and a work queue, creates the core runtime, loads
  kernel libraries, opens the BEF file, selects the functions to run, runs each one
  and verifies the diagnostics.

  Everything the driver calls outside its own file (the file system, the host context,
  the BEF file, async values, the output streams' number formatting, the diagnostic
  verifier) is a field of the record \<open>env\<close>; the state those calls read and change is
  a value of the type variable \<open>'w\<close>, threaded through the calls in program order.
  What the driver itself does is recorded as a list of events in program order,
  together with the way the process ends. Tracing scopes and the version metric
  neither print nor change the control flow and are left out.
\<close>

subsection \<open>Data\<close>

datatype HostAllocatorType =
  kMalloc | kTestFixedSizeMalloc | kProfiledMalloc | kLeakCheckMalloc

text \<open>
  The allocator the driver builds, as the term of constructor calls that builds it:
  \<^verbatim>\<open>CreateMallocAllocator()\<close>, \<^verbatim>\<open>CreateFixedSizeAllocator()\<close>,
  \<^verbatim>\<open>CreateProfiledAllocator(a)\<close> and \<^verbatim>\<open>CreateLeakCheckAllocator(a)\<close>.
\<close>

datatype HostAllocator =
  CreateMallocAllocator
| CreateFixedSizeAllocator
| CreateProfiledAllocator HostAllocator
| CreateLeakCheckAllocator HostAllocator

record RunBefConfig =
  program_name :: string
  input_filename :: string
  shared_libs :: "string list"
  functions_requested :: "string list"
  work_queue_type :: string
  host_allocator_type :: HostAllocatorType
  devices :: "string list"

text \<open>
  A function of the BEF file: its name and the names of its argument and result types
  (\<^verbatim>\<open>TypeName::GetName()\<close>).
\<close>

record Function =
  name :: string
  argument_types :: "string list"
  result_types :: "string list"

text \<open>
  An opened BEF file, as the two queries the driver makes of it.
\<close>

record BEFFile =
  GetFunctionList :: "Function list"
  GetFunction :: "string \<Rightarrow> Function option"

text \<open>
  The events of a run, in program order: text written to \<^verbatim>\<open>tfrt::outs()\<close> and
  \<^verbatim>\<open>llvm::errs()\<close>, flushes of \<^verbatim>\<open>tfrt::outs()\<close>, and the calls into the runtime.
  \<open>ReadNumAsyncValues\<close> is a read of \<^verbatim>\<open>AsyncValue::GetNumAsyncValueInstances()\<close>
  in the function loop, \<open>CallAwait n\<close> an await on \<open>n\<close> results and \<open>ResultsClear\<close>
  is \<^verbatim>\<open>results.clear()\<close>.
\<close>

datatype event =
  Outs string
| OutsFlush
| Errs string
| CallCreateCoreRuntime HostAllocator string "string list"
| CallRegisterKernels string
| CallBEFFileOpen
| ReadNumAsyncValues "64 word"
| CallExecute Function
| CallAwait nat
| CallQuiesce
| CallRestart
| ResultsClear
| BefReset
| CallVerify

text \<open>
  How the process ends: \<^verbatim>\<open>RunBefExecutor\<close> returns a value, or \<^verbatim>\<open>abort()\<close> is
  called after a leak, or an \<^verbatim>\<open>assert\<close> fails.
\<close>

datatype outcome = Returned int | Aborted | AssertionFailed

text \<open>
  The collaborators. \<open>'w\<close> is the state of the runtime, \<open>'a\<close> a reference to an
  async value (\<^verbatim>\<open>RCReference<AsyncValue>\<close>). \<^verbatim>\<open>size_t\<close> is a 64-bit word,
  \<^verbatim>\<open>float\<close> and \<^verbatim>\<open>double\<close> are their 32 and 64 bits.
  \<^item> \<open>openInputFile\<close>: the error message, or the bytes of the file.
  \<^item> \<open>NDEBUG\<close>: whether \<^verbatim>\<open>assert\<close> is compiled out.
  \<^item> \<open>CreateWorkQueue\<close>: \<open>None\<close> for a null pointer, or the queue's \<^verbatim>\<open>name()\<close>.
  \<^item> \<open>CoreRuntime_Create\<close>: the error, or the state with the runtime created.
  \<^item> \<open>getPermanentLibrary\<close>: the error when the library is not valid.
  \<^item> \<open>SearchForAddressOfSymbol\<close>: the static search for \<^verbatim>\<open>RegisterKernels\<close>, which
    looks in every library loaded so far and not only in the one just loaded; its argument
    lists the libraries this run has loaded, in order.
  \<^item> \<open>BEFFile_Open\<close>: \<open>None\<close> for a null pointer.
  \<^item> \<open>Execute\<close>: the function stores a reference in every slot of the array it is given,
    so it returns the slot contents by index.
  \<^item> \<open>verify\<close>: \<^verbatim>\<open>mlir::failed(source_mgr_handler.verify())\<close>, true on a mismatch.
  \<^item> \<open>out_bool\<close> to \<open>out_size_t\<close>: what \<^verbatim>\<open>operator<<\<close> of the stream writes for a
    value of that type.
\<close>

record ('w, 'a) env =
  openInputFile :: "string \<Rightarrow> string + 8 word list"
  NDEBUG :: bool
  GetNumReferenceCountedObjects :: "'w \<Rightarrow> 64 word"
  GetNumAsyncValueInstances :: "'w \<Rightarrow> 64 word"
  AsyncValueAllocationTrackingEnabled :: bool
  CreateWorkQueue :: "string \<Rightarrow> string option"
  CoreRuntime_Create :: "HostAllocator \<Rightarrow> string \<Rightarrow> string list \<Rightarrow> 'w \<Rightarrow> string + 'w"
  destroy_core_rt :: "'w \<Rightarrow> 'w"
  getPermanentLibrary :: "string \<Rightarrow> string + unit"
  SearchForAddressOfSymbol :: "string list \<Rightarrow> ('w \<Rightarrow> 'w) option"
  BEFFile_Open :: "8 word list \<Rightarrow> 'w \<Rightarrow> BEFFile option \<times> 'w"
  bef_reset :: "'w \<Rightarrow> 'w"
  Execute :: "Function \<Rightarrow> 'w \<Rightarrow> (nat \<Rightarrow> 'a) \<times> 'w"
  Await :: "'a list \<Rightarrow> 'w \<Rightarrow> 'w"
  Quiesce :: "'w \<Rightarrow> 'w"
  Restart :: "'w \<Rightarrow> 'w"
  results_clear :: "'a list \<Rightarrow> 'w \<Rightarrow> 'w"
  GetErrorIfPresent :: "'w \<Rightarrow> 'a \<Rightarrow> string option"
  get_bool :: "'w \<Rightarrow> 'a \<Rightarrow> bool"
  get_int32 :: "'w \<Rightarrow> 'a \<Rightarrow> 32 word"
  get_int64 :: "'w \<Rightarrow> 'a \<Rightarrow> 64 word"
  get_float :: "'w \<Rightarrow> 'a \<Rightarrow> 32 word"
  get_double :: "'w \<Rightarrow> 'a \<Rightarrow> 64 word"
  out_bool :: "bool \<Rightarrow> string"
  out_int32 :: "32 word \<Rightarrow> string"
  out_int64 :: "64 word \<Rightarrow> string"
  out_float :: "32 word \<Rightarrow> string"
  out_double :: "64 word \<Rightarrow> string"
  out_size_t :: "64 word \<Rightarrow> string"
  verify :: "'w \<Rightarrow> bool"

subsection \<open>Text\<close>

definition nl :: string where
  "nl = [CHR 0x0A]"

definition sq :: string where
  "sq = [CHR 0x27]"

text \<open>The characters written to \<^verbatim>\<open>tfrt::outs()\<close>.\<close>

fun outs_text :: "event list \<Rightarrow> string" where
  "outs_text [] = []"
| "outs_text (Outs s # evs) = s @ outs_text evs"
| "outs_text (ev # evs) = outs_text evs"

subsection \<open>The allocator\<close>

text \<open>The \<^verbatim>\<open>switch\<close> on \<^verbatim>\<open>run_config.host_allocator_type\<close>: the allocator and the line printed.\<close>

fun choose_host_allocator :: "HostAllocatorType \<Rightarrow> HostAllocator \<times> string" where
  "choose_host_allocator kMalloc =
     (CreateMallocAllocator, ''Choosing malloc.'' @ nl)"
| "choose_host_allocator kTestFixedSizeMalloc =
     (CreateFixedSizeAllocator, ''Choosing fixed size malloc.'' @ nl)"
| "choose_host_allocator kProfiledMalloc =
     (CreateProfiledAllocator CreateMallocAllocator,
      ''Choosing profiled allocator based on malloc.'' @ nl)"
| "choose_host_allocator kLeakCheckMalloc =
     (CreateLeakCheckAllocator CreateMallocAllocator,
      ''Choosing memory leak check allocator.'' @ nl)"

subsection \<open>Kernel libraries\<close>

text \<open>
  The loop over \<^verbatim>\<open>run_config.shared_libs\<close>, with the libraries \<open>loaded\<close> in the
  iterations before: whether every library loaded (the driver returns 1 at the first
  that does not), and the state after the registrations made. In the iteration of
  \<open>lib_name\<close> the symbol is searched among all the libraries loaded up to and including
  it, and \<open>CallRegisterKernels lib_name\<close> is the call of the entry point found.
\<close>

fun load_shared_libs ::
  "('w, 'a) env \<Rightarrow> string \<Rightarrow> string list \<Rightarrow> string list \<Rightarrow> 'w \<Rightarrow>
     event list \<times> bool \<times> 'w" where
  "load_shared_libs E pn loaded [] w = ([], True, w)"
| "load_shared_libs E pn loaded (lib_name # libs) w =
     (case getPermanentLibrary E lib_name of
        Inl err \<Rightarrow> ([Errs (pn @ '': couldn't load library '' @ err @ nl)], False, w)
      | Inr dyn_lib \<Rightarrow>
          (case SearchForAddressOfSymbol E (loaded @ [lib_name]) of
             None \<Rightarrow> load_shared_libs E pn (loaded @ [lib_name]) libs w
           | Some kernel_reg \<Rightarrow>
               (case load_shared_libs E pn (loaded @ [lib_name]) libs (kernel_reg w) of
                  (evs, r) \<Rightarrow> (CallRegisterKernels lib_name # evs, r))))"

subsection \<open>The functions to run\<close>

text \<open>
  The loop over \<^verbatim>\<open>run_config.functions\<close>: the first name that
  \<^verbatim>\<open>bef->GetFunction\<close> does not find, or \<^verbatim>\<open>function_list\<close> with the functions
  pushed so far followed by the ones found.
\<close>

fun resolve_functions ::
  "BEFFile \<Rightarrow> string list \<Rightarrow> Function list \<Rightarrow> string + Function list" where
  "resolve_functions bef [] function_list = Inr function_list"
| "resolve_functions bef (fn_name # names) function_list =
     (case GetFunction bef fn_name of
        None \<Rightarrow> Inl fn_name
      | Some fn \<Rightarrow> resolve_functions bef names (function_list @ [fn]))"

definition select_functions :: "BEFFile \<Rightarrow> string list \<Rightarrow> string + Function list" where
  "select_functions bef requested =
     (if requested = [] then Inr (GetFunctionList bef)
      else resolve_functions bef requested [])"

subsection \<open>Running one function\<close>

text \<open>What is written for result \<open>r\<close> of declared type \<open>type_name\<close>.\<close>

definition print_result :: "('w, 'a) env \<Rightarrow> 'w \<Rightarrow> string \<Rightarrow> 'a \<Rightarrow> string" where
  "print_result E w type_name r =
     (case GetErrorIfPresent E w r of
        Some message \<Rightarrow> ''<<error: '' @ message @ ''>>''
      | None \<Rightarrow>
          if type_name = ''i1'' then out_bool E (get_bool E w r)
          else if type_name = ''i32'' then out_int32 E (get_int32 E w r)
          else if type_name = ''i64'' then out_int64 E (get_int64 E w r)
          else if type_name = ''f32'' then out_float E (get_float E w r)
          else if type_name = ''f64'' then out_double E (get_double E w r)
          else type_name @ '' value'')"

text \<open>
  The body of the loop over the results, at index \<open>i\<close>: the result, then a comma
  unless \<open>i\<close> is the last index.
\<close>

definition print_result_at ::
  "('w, 'a) env \<Rightarrow> 'w \<Rightarrow> string list \<Rightarrow> 'a list \<Rightarrow> nat \<Rightarrow> event list" where
  "print_result_at E w types results i =
     Outs (print_result E w (types ! i) (results ! i)) #
     (if i \<noteq> length results - 1 then [Outs '',''] else [])"

text \<open>
  The report: nothing when there are no results, else the name, the results for
  \<open>i = 0, \<dots>, results.size() - 1\<close>, a newline and a flush. The index is an
  \<^verbatim>\<open>int\<close> in the source and a natural number here, which is the same for fewer than
  \<open>2\<^sup>3\<^sup>1\<close> results.
\<close>

definition print_results ::
  "('w, 'a) env \<Rightarrow> 'w \<Rightarrow> Function \<Rightarrow> 'a list \<Rightarrow> event list" where
  "print_results E w fn results =
     (if results \<noteq> [] then
        [Outs (sq @ name fn @ sq @ '' returned '')] @
        concat (map (print_result_at E w (result_types fn) results) [0..<length results]) @
        [Outs nl, OutsFlush]
      else [])"

text \<open>
  The message written to \<^verbatim>\<open>llvm::errs()\<close> before \<^verbatim>\<open>abort()\<close>; the difference of the
  two \<^verbatim>\<open>size_t\<close> counts wraps around.
\<close>

definition leak_message :: "('w, 'a) env \<Rightarrow> Function \<Rightarrow> 64 word \<Rightarrow> 64 word \<Rightarrow> string" where
  "leak_message E fn before_num_values after_num_values =
     ''Evaluation of function '' @ sq @ name fn @ sq @ '' leaked '' @
     out_size_t E (after_num_values - before_num_values) @
     '' async values (before: '' @ out_size_t E before_num_values @
     '', after: '' @ out_size_t E after_num_values @ '')!'' @ nl"

text \<open>The state of the loop over the functions after one function.\<close>

datatype 'w loop_state = Continue 'w | LeakAbort

text \<open>
  The body of the loop over \<^verbatim>\<open>function_list\<close>. \<^verbatim>\<open>results.resize(n)\<close> makes an array
  of \<open>n\<close> slots and \<^verbatim>\<open>Execute\<close> fills it, so \<open>results\<close> has one entry for each declared
  result type.
\<close>

definition run_function ::
  "('w, 'a) env \<Rightarrow> Function \<Rightarrow> 'w \<Rightarrow> event list \<times> 'w loop_state" where
  "run_function E fn w =
     (if argument_types fn \<noteq> [] then
        ([Outs (''--- Not running '' @ sq @ name fn @ sq @ '' because it has arguments.'' @ nl),
          OutsFlush], Continue w)
      else if name fn = [] then ([], Continue w)
      else
        let tracking = AsyncValueAllocationTrackingEnabled E;
            before_num_values = GetNumAsyncValueInstances E w;
            (slots, w1) = Execute E fn w;
            results = map slots [0..<length (result_types fn)];
            w2 = Await E results w1;
            w3 = Quiesce E w2;
            w4 = Restart E w3;
            w5 = results_clear E results w4;
            after_num_values = GetNumAsyncValueInstances E w5;
            evs =
              (if tracking then [ReadNumAsyncValues before_num_values] else []) @
              [Outs (''--- Running '' @ sq @ name fn @ sq @ '':'' @ nl), OutsFlush,
               CallExecute fn, CallAwait (length results)] @
              print_results E w2 fn results @
              [CallQuiesce, CallRestart, ResultsClear]
        in
          if tracking then
            if before_num_values \<noteq> after_num_values then
              (evs @
               [ReadNumAsyncValues after_num_values,
                Errs (leak_message E fn before_num_values after_num_values)],
               LeakAbort)
            else (evs @ [ReadNumAsyncValues after_num_values], Continue w5)
          else (evs, Continue w5))"

text \<open>The loop over \<^verbatim>\<open>function_list\<close>; \<^verbatim>\<open>abort()\<close> ends it.\<close>

fun run_function_list ::
  "('w, 'a) env \<Rightarrow> Function list \<Rightarrow> 'w \<Rightarrow> event list \<times> 'w loop_state" where
  "run_function_list E [] w = ([], Continue w)"
| "run_function_list E (fn # fns) w =
     (case run_function E fn w of
        (evs, LeakAbort) \<Rightarrow> (evs, LeakAbort)
      | (evs, Continue w') \<Rightarrow>
          (case run_function_list E fns w' of (evs', r) \<Rightarrow> (evs @ evs', r)))"

subsection \<open>The driver\<close>

definition bool_to_int :: "bool \<Rightarrow> int" where
  "bool_to_int b = (if b then 1 else 0)"

text \<open>
  From \<^verbatim>\<open>BEFFile::Open\<close> to the \<^verbatim>\<open>return\<close>: the events, the value returned
  (\<open>None\<close> after \<^verbatim>\<open>abort()\<close>) and the state once \<^verbatim>\<open>bef\<close> is gone
  (\<^verbatim>\<open>bef.reset()\<close>, or the destructor of \<^verbatim>\<open>bef\<close> at \<^verbatim>\<open>return 1\<close>).
\<close>

definition run_bef ::
  "('w, 'a) env \<Rightarrow> RunBefConfig \<Rightarrow> 8 word list \<Rightarrow> 'w \<Rightarrow> event list \<times> int option \<times> 'w" where
  "run_bef E run_config buffer w =
     (case BEFFile_Open E buffer w of
        (None, w1) \<Rightarrow> ([CallBEFFileOpen, CallVerify], Some (bool_to_int (verify E w1)), w1)
      | (Some bef, w1) \<Rightarrow>
          (case select_functions bef (functions_requested run_config) of
             Inl fn_name \<Rightarrow>
               ([CallBEFFileOpen,
                 Errs (program_name run_config @ '': couldn't find function '' @ fn_name @ nl),
                 BefReset],
                Some 1, bef_reset E w1)
           | Inr function_list \<Rightarrow>
               (case run_function_list E function_list w1 of
                  (evs, LeakAbort) \<Rightarrow> (CallBEFFileOpen # evs, None, w1)
                | (evs, Continue w2) \<Rightarrow>
                    (CallBEFFileOpen # evs @ [BefReset, CallVerify],
                     Some (bool_to_int (verify E (bef_reset E w2))), bef_reset E w2))))"

text \<open>
  The scope-exit guard \<^verbatim>\<open>async_value_guard\<close>, run when the function returns \<open>r\<close>,
  after the locals declared after it are destroyed: with assertions compiled in, both
  counters must read zero, else the process ends in the assertion.
\<close>

definition async_value_guard :: "('w, 'a) env \<Rightarrow> int \<Rightarrow> 'w \<Rightarrow> outcome" where
  "async_value_guard E r w =
     (if \<not> NDEBUG E \<and>
         (GetNumAsyncValueInstances E w \<noteq> 0 \<or> GetNumReferenceCountedObjects E w \<noteq> 0)
      then AssertionFailed else Returned r)"

text \<open>
  From the start to the loop over the libraries: either the process has ended
  (\<open>Inl\<close>), or the driver is about to call \<^verbatim>\<open>BEFFile::Open\<close> on the bytes of the file
  (\<open>Inr\<close>). The two entry assertions come before the allocator and after the work queue;
  the returns after the guard is in place run the guard.
\<close>

definition startup ::
  "('w, 'a) env \<Rightarrow> RunBefConfig \<Rightarrow> 'w \<Rightarrow> event list \<times> (outcome + 8 word list \<times> 'w)" where
  "startup E run_config w =
     (case openInputFile E (input_filename run_config) of
        Inl error_message \<Rightarrow> ([Errs (error_message @ nl)], Inl (Returned 1))
      | Inr buffer \<Rightarrow>
          if \<not> NDEBUG E \<and> GetNumReferenceCountedObjects E w \<noteq> 0
          then ([], Inl AssertionFailed)
          else
            (case choose_host_allocator (host_allocator_type run_config) of
               (host_allocator, choosing) \<Rightarrow>
                 (case CreateWorkQueue E (work_queue_type run_config) of
                    None \<Rightarrow>
                      ([Outs choosing, OutsFlush,
                        Errs (program_name run_config @ '': couldn't create work queue type '' @
                              work_queue_type run_config @ nl)],
                       Inl (Returned 1))
                  | Some work_queue \<Rightarrow>
                      let evs = [Outs choosing, OutsFlush,
                                 Outs (''Choosing '' @ work_queue @ '' work queue.'' @ nl),
                                 OutsFlush];
                          create = CallCreateCoreRuntime host_allocator work_queue
                                     (devices run_config)
                      in
                        if \<not> NDEBUG E \<and> GetNumAsyncValueInstances E w \<noteq> 0
                        then (evs, Inl AssertionFailed)
                        else
                          (case CoreRuntime_Create E host_allocator work_queue
                                  (devices run_config) w of
                             Inl err \<Rightarrow>
                               (evs @ [create, Errs err], Inl (async_value_guard E 1 w))
                           | Inr w1 \<Rightarrow>
                               (case load_shared_libs E (program_name run_config) []
                                       (shared_libs run_config) w1 of
                                  (evs', loaded, w2) \<Rightarrow>
                                    if loaded then (evs @ create # evs', Inr (buffer, w2))
                                    else
                                      (evs @ create # evs',
                                       Inl (async_value_guard E 1
                                              (destroy_core_rt E w2))))))))"

text \<open>
  The whole driver: the events and the way the process ends. After \<^verbatim>\<open>abort()\<close> nothing
  else runs; after a \<^verbatim>\<open>return\<close> the runtime is destroyed and the guard runs.
\<close>

definition RunBefExecutor ::
  "('w, 'a) env \<Rightarrow> RunBefConfig \<Rightarrow> 'w \<Rightarrow> event list \<times> outcome" where
  "RunBefExecutor E run_config w =
     (case startup E run_config w of
        (evs, Inl ended) \<Rightarrow> (evs, ended)
      | (evs, Inr (buffer, w2)) \<Rightarrow>
          (case run_bef E run_config buffer w2 of
             (evs', None, w3) \<Rightarrow> (evs @ evs', Aborted)
           | (evs', Some r, w3) \<Rightarrow>
               (evs @ evs', async_value_guard E r (destroy_core_rt E w3))))"

subsection \<open>Notions for stating the properties\<close>

text \<open>
  A function the loop runs: it passes both tests at the top of the loop body.
\<close>

definition runnable :: "Function \<Rightarrow> bool" where
  "runnable fn = (argument_types fn = [] \<and> name fn \<noteq> [])"

text \<open>
  The result array of \<open>fn\<close> dispatched in state \<open>w\<close>, and the states after
  \<^verbatim>\<open>Execute\<close>, after \<^verbatim>\<open>Await\<close> and after \<^verbatim>\<open>results.clear()\<close>.
\<close>

definition dispatched_results :: "('w, 'a) env \<Rightarrow> Function \<Rightarrow> 'w \<Rightarrow> 'a list" where
  "dispatched_results E fn w = map (fst (Execute E fn w)) [0..<length (result_types fn)]"

definition awaited :: "('w, 'a) env \<Rightarrow> Function \<Rightarrow> 'w \<Rightarrow> 'w" where
  "awaited E fn w = Await E (dispatched_results E fn w) (snd (Execute E fn w))"

definition released :: "('w, 'a) env \<Rightarrow> Function \<Rightarrow> 'w \<Rightarrow> 'w" where
  "released E fn w =
     results_clear E (dispatched_results E fn w) (Restart E (Quiesce E (awaited E fn w)))"

text \<open>
  The events of a function that runs, from the \<^verbatim>\<open>--- Running\<close> line to
  \<^verbatim>\<open>results.clear()\<close>, without the reads of the async-value count.
\<close>

definition iteration_events :: "('w, 'a) env \<Rightarrow> Function \<Rightarrow> 'w \<Rightarrow> event list" where
  "iteration_events E fn w =
     [Outs (''--- Running '' @ sq @ name fn @ sq @ '':'' @ nl), OutsFlush,
      CallExecute fn, CallAwait (length (result_types fn))] @
     print_results E (awaited E fn w) fn (dispatched_results E fn w) @
     [CallQuiesce, CallRestart, ResultsClear]"

text \<open>Texts separated by commas, with no comma after the last.\<close>

fun comma_separated :: "string list \<Rightarrow> string" where
  "comma_separated [] = []"
| "comma_separated [s] = s"
| "comma_separated (s # t # ts) = s @ '','' @ comma_separated (t # ts)"

text \<open>
  The calls a run makes on the host for its functions, and the calls made for one
  function that runs.
\<close>

fun is_host_call :: "event \<Rightarrow> bool" where
  "is_host_call (CallExecute fn) = True"
| "is_host_call (CallAwait n) = True"
| "is_host_call CallQuiesce = True"
| "is_host_call CallRestart = True"
| "is_host_call ResultsClear = True"
| "is_host_call ev = False"

definition host_calls :: "event list \<Rightarrow> event list" where
  "host_calls evs = filter is_host_call evs"

definition calls_of :: "Function \<Rightarrow> event list" where
  "calls_of fn =
     [CallExecute fn, CallAwait (length (result_types fn)), CallQuiesce, CallRestart,
      ResultsClear]"

subsection \<open>An example runtime\<close>

text \<open>
  A small runtime to run the driver on: its state counts the live async values and
  reference-counted objects and holds the cancellation flag and the verdict of the
  diagnostic verifier; an async value is its resolved content.
\<close>

record test_world =
  live_async_values :: "64 word"
  live_rc_objects :: "64 word"
  canceled :: bool
  diagnostics_mismatch :: bool

datatype test_value =
  VError string | VBool bool | VInt32 "32 word" | VInt64 "64 word"
| VFloat "32 word" | VDouble "64 word" | VOpaque

definition test_world0 :: test_world where
  "test_world0 =
     \<lparr>live_async_values = 0, live_rc_objects = 0, canceled = False,
      diagnostics_mismatch = False\<rparr>"

text \<open>
  The stream of the example runtime writes as \<^verbatim>\<open>llvm::raw_ostream\<close> does. An integer
  is written in decimal, with a minus sign when negative.
\<close>

function decimal :: "nat \<Rightarrow> string" where
  "decimal n =
     (if n < 10 then [''0123456789'' ! n]
      else decimal (n div 10) @ [''0123456789'' ! (n mod 10)])"
  by pat_completeness auto
termination
  by (relation "measure id") auto

definition signed_decimal :: "int \<Rightarrow> string" where
  "signed_decimal i = (if i < 0 then ''-'' @ decimal (nat (- i)) else decimal (nat i))"

text \<open>
  \<^verbatim>\<open>operator<<(double)\<close> writes in exponent notation with six digits after the point
  (\<^verbatim>\<open>write_double\<close> with \<^verbatim>\<open>FloatStyle::Exponent\<close>, that is \<^verbatim>\<open>%.6e\<close>), and
  \<^verbatim>\<open>nan\<close>, \<^verbatim>\<open>INF\<close> or \<^verbatim>\<open>-INF\<close> for the values that are not finite. For the positive
  fraction \<open>p / q\<close>: \<open>decimal_exponent\<close> is the greatest \<open>k\<close> with
  \<open>10 ^ k \<le> p / q\<close>, which is the number of digits of \<open>p\<close> less that of \<open>q\<close>, or
  one below; \<open>seven_digits\<close> is \<open>p / q\<close> times \<open>10 ^ (6 - k)\<close> rounded to the nearest
  integer, to the even one in a tie.
\<close>

definition at_least_power_of_ten :: "nat \<Rightarrow> nat \<Rightarrow> int \<Rightarrow> bool" where
  "at_least_power_of_ten p q k =
     (if 0 \<le> k then q * 10 ^ nat k \<le> p else q \<le> p * 10 ^ nat (- k))"

definition decimal_exponent :: "nat \<Rightarrow> nat \<Rightarrow> int" where
  "decimal_exponent p q =
     (let k = int (length (decimal p)) - int (length (decimal q))
      in if at_least_power_of_ten p q k then k else k - 1)"

definition round_half_even :: "nat \<Rightarrow> nat \<Rightarrow> nat" where
  "round_half_even n m =
     (if m < 2 * (n mod m) \<or> (2 * (n mod m) = m \<and> odd (n div m)) then n div m + 1
      else n div m)"

definition seven_digits :: "nat \<Rightarrow> nat \<Rightarrow> int \<Rightarrow> nat" where
  "seven_digits p q k =
     (if k \<le> 6 then round_half_even (p * 10 ^ nat (6 - k)) q
      else round_half_even p (q * 10 ^ nat (k - 6)))"

definition mantissa_and_exponent :: "nat \<Rightarrow> int \<Rightarrow> string" where
  "mantissa_and_exponent d e =
     take 1 (decimal d) @ ''.'' @ drop 1 (decimal d) @ ''e'' @
     (if e < 0 then ''-'' else ''+'') @
     (if \<bar>e\<bar> < 10 then ''0'' else []) @ decimal (nat \<bar>e\<bar>)"

definition exponent_notation :: "bool \<Rightarrow> nat \<Rightarrow> nat \<Rightarrow> string" where
  "exponent_notation negative p q =
     (if negative then ''-'' else []) @
     (if p = 0 then ''0.000000e+00''
      else if seven_digits p q (decimal_exponent p q) = 10000000
      then mantissa_and_exponent 1000000 (decimal_exponent p q + 1)
      else mantissa_and_exponent (seven_digits p q (decimal_exponent p q))
             (decimal_exponent p q))"

text \<open>
  A \<^verbatim>\<open>double\<close> from its 64 bits (sign, 11 bits of exponent, 52 of fraction); a
  \<^verbatim>\<open>float\<close>, which is converted to \<^verbatim>\<open>double\<close> before it is written, from its 32
  bits (sign, 8 bits of exponent, 23 of fraction).
\<close>

definition raw_ostream_double :: "64 word \<Rightarrow> string" where
  "raw_ostream_double x =
     (let negative = (2 ^ 63 \<le> unat x);
          e = unat x div 2 ^ 52 mod 2048;
          f = unat x mod 2 ^ 52
      in if e = 2047 then (if f \<noteq> 0 then ''nan'' else if negative then ''-INF'' else ''INF'')
         else if e = 0 then exponent_notation negative f (2 ^ 1074)
         else if 1075 \<le> e then exponent_notation negative ((2 ^ 52 + f) * 2 ^ (e - 1075)) 1
         else exponent_notation negative (2 ^ 52 + f) (2 ^ (1075 - e)))"

definition raw_ostream_float :: "32 word \<Rightarrow> string" where
  "raw_ostream_float x =
     (let negative = (2 ^ 31 \<le> unat x);
          e = unat x div 2 ^ 23 mod 256;
          f = unat x mod 2 ^ 23
      in if e = 255 then (if f \<noteq> 0 then ''nan'' else if negative then ''-INF'' else ''INF'')
         else if e = 0 then exponent_notation negative f (2 ^ 149)
         else if 150 \<le> e then exponent_notation negative ((2 ^ 23 + f) * 2 ^ (e - 150)) 1
         else exponent_notation negative (2 ^ 23 + f) (2 ^ (150 - e)))"

text \<open>
  The integers: \<^verbatim>\<open>int32_t\<close> and \<^verbatim>\<open>int64_t\<close> are signed, \<^verbatim>\<open>size_t\<close> is not, and a
  \<^verbatim>\<open>bool\<close> is written as the \<^verbatim>\<open>int\<close> it is promoted to.
\<close>

definition raw_ostream_int32 :: "32 word \<Rightarrow> string" where
  "raw_ostream_int32 i = signed_decimal (sint i)"

definition raw_ostream_int64 :: "64 word \<Rightarrow> string" where
  "raw_ostream_int64 i = signed_decimal (sint i)"

definition raw_ostream_size_t :: "64 word \<Rightarrow> string" where
  "raw_ostream_size_t n = decimal (unat n)"

definition raw_ostream_bool :: "bool \<Rightarrow> string" where
  "raw_ostream_bool b = signed_decimal (if b then 1 else 0)"

text \<open>
  The functions of the example program: \<open>fn_values\<close> resolves to \<open>(3, 2.5)\<close>,
  \<open>fn_div\<close> to 3 and the error \<^verbatim>\<open>div by zero\<close>, \<open>fn_leak\<close> leaves one async value
  behind and \<open>fn_cancel\<close> leaves the host canceled.
\<close>

definition fn_values :: Function where
  "fn_values = \<lparr>name = ''name'', argument_types = [], result_types = [''i32'', ''f64'']\<rparr>"

definition fn_div :: Function where
  "fn_div = \<lparr>name = ''div'', argument_types = [], result_types = [''i32'', ''f64'']\<rparr>"

definition fn_args :: Function where
  "fn_args = \<lparr>name = ''add'', argument_types = [''i32'', ''i32''], result_types = [''i32'']\<rparr>"

definition fn_anon :: Function where
  "fn_anon = \<lparr>name = [], argument_types = [], result_types = []\<rparr>"

definition fn_void :: Function where
  "fn_void = \<lparr>name = ''void'', argument_types = [], result_types = []\<rparr>"

definition fn_leak :: Function where
  "fn_leak = \<lparr>name = ''leak'', argument_types = [], result_types = []\<rparr>"

definition fn_cancel :: Function where
  "fn_cancel = \<lparr>name = ''cancel'', argument_types = [], result_types = [''chain'']\<rparr>"

definition test_slots :: "Function \<Rightarrow> nat \<Rightarrow> test_value" where
  "test_slots fn i =
     (if name fn = ''name'' then (if i = 0 then VInt32 3 else VDouble 0x4004000000000000)
      else if name fn = ''div'' then (if i = 0 then VInt32 3 else VError ''div by zero'')
      else VOpaque)"

definition test_Execute :: "Function \<Rightarrow> test_world \<Rightarrow> (nat \<Rightarrow> test_value) \<times> test_world" where
  "test_Execute fn w =
     (test_slots fn,
      w\<lparr>live_async_values :=
           live_async_values w + of_nat (length (result_types fn)) +
           (if name fn = ''leak'' then 1 else 0),
        canceled := (canceled w \<or> name fn = ''cancel'')\<rparr>)"

definition test_bef :: "Function list \<Rightarrow> BEFFile" where
  "test_bef fns =
     \<lparr>GetFunctionList = fns, GetFunction = (\<lambda>n. find (\<lambda>fn. name fn = n) fns)\<rparr>"

text \<open>
  The example environment, for a program with the functions \<open>fns\<close>: assertions and
  allocation tracking are on; the file \<^verbatim>\<open>missing.mlir\<close> does not open, the file
  \<^verbatim>\<open>bad.mlir\<close> does not parse and its diagnostics are not the expected ones, the file
  \<^verbatim>\<open>expected.mlir\<close> does not parse and its diagnostics are the expected ones; the
  libraries \<^verbatim>\<open>kernels.so\<close> and \<^verbatim>\<open>plain.so\<close> load, and \<^verbatim>\<open>RegisterKernels\<close> is found
  once \<^verbatim>\<open>kernels.so\<close> is loaded.
\<close>

definition test_env :: "Function list \<Rightarrow> (test_world, test_value) env" where
  "test_env fns =
     \<lparr>openInputFile = (\<lambda>f. if f = ''missing.mlir'' then Inl ''No such file''
                             else if f = ''bad.mlir'' then Inr [0]
                             else if f = ''expected.mlir'' then Inr [1] else Inr []),
      NDEBUG = False,
      GetNumReferenceCountedObjects = live_rc_objects,
      GetNumAsyncValueInstances = live_async_values,
      AsyncValueAllocationTrackingEnabled = True,
      CreateWorkQueue = (\<lambda>t. if t = ''s'' then Some ''single-threaded'' else None),
      CoreRuntime_Create = (\<lambda>a q d w. Inr (w\<lparr>live_rc_objects := live_rc_objects w + 1\<rparr>)),
      destroy_core_rt = (\<lambda>w. w\<lparr>live_rc_objects := live_rc_objects w - 1\<rparr>),
      getPermanentLibrary = (\<lambda>l. if l = ''kernels.so'' \<or> l = ''plain.so'' then Inr ()
                                   else Inl (l @ '': not found'')),
      SearchForAddressOfSymbol =
        (\<lambda>loaded. if ''kernels.so'' \<in> set loaded then Some (\<lambda>w. w) else None),
      BEFFile_Open = (\<lambda>b w. if b = [] then (Some (test_bef fns), w)
                              else if b = [1] then (None, w)
                              else (None, w\<lparr>diagnostics_mismatch := True\<rparr>)),
      bef_reset = (\<lambda>w. w),
      Execute = test_Execute,
      Await = (\<lambda>rs w. w),
      Quiesce = (\<lambda>w. w),
      Restart = (\<lambda>w. w\<lparr>canceled := False\<rparr>),
      results_clear = (\<lambda>rs w. w\<lparr>live_async_values := live_async_values w - of_nat (length rs)\<rparr>),
      GetErrorIfPresent = (\<lambda>w r. case r of VError m \<Rightarrow> Some m | _ \<Rightarrow> None),
      get_bool = (\<lambda>w r. case r of VBool b \<Rightarrow> b | _ \<Rightarrow> False),
      get_int32 = (\<lambda>w r. case r of VInt32 i \<Rightarrow> i | _ \<Rightarrow> 0),
      get_int64 = (\<lambda>w r. case r of VInt64 i \<Rightarrow> i | _ \<Rightarrow> 0),
      get_float = (\<lambda>w r. case r of VFloat x \<Rightarrow> x | _ \<Rightarrow> 0),
      get_double = (\<lambda>w r. case r of VDouble x \<Rightarrow> x | _ \<Rightarrow> 0),
      out_bool = raw_ostream_bool,
      out_int32 = raw_ostream_int32,
      out_int64 = raw_ostream_int64,
      out_float = raw_ostream_float,
      out_double = raw_ostream_double,
      out_size_t = raw_ostream_size_t,
      verify = diagnostics_mismatch\<rparr>"

definition test_config :: "string list \<Rightarrow> RunBefConfig" where
  "test_config requested =
     \<lparr>program_name = ''bef_executor'', input_filename = ''test.mlir'',
      shared_libs = [''kernels.so''], functions_requested = requested,
      work_queue_type = ''s'', host_allocator_type = kLeakCheckMalloc,
      devices = [''cpu'']\<rparr>"

text \<open>
  The same environment with a runtime whose destruction leaves its reference-counted
  object alive.
\<close>

definition leaky_env :: "Function list \<Rightarrow> (test_world, test_value) env" where
  "leaky_env fns = (test_env fns)\<lparr>destroy_core_rt := (\<lambda>w. w)\<rparr>"

text \<open>
  What the driver does on the example runtime before it opens the BEF file.
\<close>

definition test_startup_events :: "event list" where
  "test_startup_events =
     [Outs (''Choosing memory leak check allocator.'' @ nl), OutsFlush,
      Outs (''Choosing single-threaded work queue.'' @ nl), OutsFlush,
      CallCreateCoreRuntime (CreateLeakCheckAllocator CreateMallocAllocator)
        ''single-threaded'' [''cpu''],
      CallRegisterKernels ''kernels.so'']"

section \<open>Properties\<close>

subsection \<open>The events of one function\<close>

lemma outs_text_append: "outs_text (xs @ ys) = outs_text xs @ outs_text ys"
  by (induction xs rule: outs_text.induct) simp_all

lemma run_function_runnable:
  assumes "argument_types fn = []" "name fn \<noteq> []"
  shows "run_function E fn w =
     (let tracking = AsyncValueAllocationTrackingEnabled E;
          before_num_values = GetNumAsyncValueInstances E w;
          results = dispatched_results E fn w;
          after_num_values = GetNumAsyncValueInstances E (released E fn w);
          evs =
            (if tracking then [ReadNumAsyncValues before_num_values] else []) @
            [Outs (''--- Running '' @ sq @ name fn @ sq @ '':'' @ nl), OutsFlush,
             CallExecute fn, CallAwait (length results)] @
            print_results E (awaited E fn w) fn results @
            [CallQuiesce, CallRestart, ResultsClear]
      in
        if tracking then
          if before_num_values \<noteq> after_num_values then
            (evs @
             [ReadNumAsyncValues after_num_values,
              Errs (leak_message E fn before_num_values after_num_values)],
             LeakAbort)
          else (evs @ [ReadNumAsyncValues after_num_values], Continue (released E fn w))
        else (evs, Continue (released E fn w)))"
  using assms
  by (simp add: run_function_def released_def awaited_def dispatched_results_def
      Let_def split: prod.split)

lemma outs_text_results_from:
  "k \<le> length results \<Longrightarrow>
   outs_text (concat (map (print_result_at E w types results) [k..<length results])) =
   comma_separated (map (\<lambda>i. print_result E w (types ! i) (results ! i)) [k..<length results])"
proof (induction "length results - k" arbitrary: k)
  case 0
  then show ?case by simp
next
  case (Suc d)
  then have lt: "k < length results" by simp
  show ?case
  proof (cases "Suc k = length results")
    case True
    then show ?thesis
      by (simp add: upt_conv_Cons[OF lt] print_result_at_def) 
  next
    case False
    with lt have lt': "Suc k < length results" by simp
    from Suc(2) have d: "d = length results - Suc k" by simp
    have ne: "k \<noteq> length results - 1" using lt' by simp
    have IH: "outs_text (concat (map (print_result_at E w types results) [Suc k..<length results])) =
   comma_separated (map (\<lambda>i. print_result E w (types ! i) (results ! i)) [Suc k..<length results])"
      using Suc(1)[OF d] lt' by simp
    show ?thesis
      apply (subst (1 2) upt_conv_Cons[OF lt])
      apply (simp only: list.map concat.simps outs_text_append IH)
      apply (subst (1 2) upt_conv_Cons[OF lt'])
      using ne apply (simp add: print_result_at_def)
      done
  qed
qed

lemma length_dispatched_results [simp]:
  "length (dispatched_results E fn w) = length (result_types fn)"
  by (simp add: dispatched_results_def)

lemma run_function_events:
  assumes "argument_types fn = []" "name fn \<noteq> []"
  shows "\<exists>pre post.
     fst (run_function E fn w) =
       pre @ [Outs (''--- Running '' @ sq @ name fn @ sq @ '':'' @ nl), OutsFlush, CallExecute fn,
              CallAwait (length (result_types fn))] @
       print_results E (awaited E fn w) fn (dispatched_results E fn w) @
       [CallQuiesce, CallRestart, ResultsClear] @ post \<and>
     outs_text pre = [] \<and> host_calls pre = [] \<and> outs_text post = [] \<and> host_calls post = []"
proof (cases "AsyncValueAllocationTrackingEnabled E")
  case False
  then show ?thesis
    by (intro exI[of _ "[]"]) (simp add: run_function_runnable[OF assms] Let_def host_calls_def)
next
  case True
  show ?thesis
  proof (cases "GetNumAsyncValueInstances E w = GetNumAsyncValueInstances E (released E fn w)")
    case same: True
    show ?thesis
      apply (rule exI[of _ "[ReadNumAsyncValues (GetNumAsyncValueInstances E w)]"])
      apply (rule exI[of _ "[ReadNumAsyncValues (GetNumAsyncValueInstances E (released E fn w))]"])
      using True same
      apply (simp add: run_function_runnable[OF assms] Let_def host_calls_def)
      done
  next
    case differ: False
    show ?thesis
      apply (rule exI[of _ "[ReadNumAsyncValues (GetNumAsyncValueInstances E w)]"])
      apply (rule exI[of _ "[ReadNumAsyncValues (GetNumAsyncValueInstances E (released E fn w)),
              Errs (leak_message E fn (GetNumAsyncValueInstances E w)
                      (GetNumAsyncValueInstances E (released E fn w)))]"])
      using True differ
      apply (simp add: run_function_runnable[OF assms] Let_def host_calls_def)
      done
  qed
qed

lemma outs_text_print_results:
  assumes "length results = length (result_types fn)" "result_types fn \<noteq> []"
  shows "outs_text (print_results E v fn results) =
     sq @ name fn @ sq @ '' returned '' @
     comma_separated (map (\<lambda>i. print_result E v (result_types fn ! i) (results ! i))
        [0..<length (result_types fn)]) @ nl"
proof -
  have "results \<noteq> []" using assms by auto
  then show ?thesis
    using outs_text_results_from[of 0 results E v "result_types fn"] assms(1)
    by (simp add: print_results_def outs_text_append)
qed

lemma print_result_cases:
  "GetErrorIfPresent E v r = Some m \<Longrightarrow> print_result E v t r = ''<<error: '' @ m @ ''>>''"
  "GetErrorIfPresent E v r = None \<Longrightarrow> print_result E v ''i1'' r = out_bool E (get_bool E v r)"
  "GetErrorIfPresent E v r = None \<Longrightarrow> print_result E v ''i32'' r = out_int32 E (get_int32 E v r)"
  "GetErrorIfPresent E v r = None \<Longrightarrow> print_result E v ''i64'' r = out_int64 E (get_int64 E v r)"
  "GetErrorIfPresent E v r = None \<Longrightarrow> print_result E v ''f32'' r = out_float E (get_float E v r)"
  "GetErrorIfPresent E v r = None \<Longrightarrow> print_result E v ''f64'' r = out_double E (get_double E v r)"
  "GetErrorIfPresent E v r = None \<Longrightarrow> t \<notin> set [''i1'', ''i32'', ''i64'', ''f32'', ''f64''] \<Longrightarrow>
     print_result E v t r = t @ '' value''"
  by (simp_all add: print_result_def)

lemma run_function_with_arguments:
  "argument_types fn \<noteq> [] \<Longrightarrow>
   run_function E fn w =
     ([Outs (''--- Not running '' @ sq @ name fn @ sq @ '' because it has arguments.'' @ nl),
       OutsFlush], Continue w)"
  by (simp add: run_function_def)

lemma run_function_anonymous:
  "argument_types fn = [] \<Longrightarrow> name fn = [] \<Longrightarrow> run_function E fn w = ([], Continue w)"
  by (simp add: run_function_def)

lemma host_calls_append: "host_calls (xs @ ys) = host_calls xs @ host_calls ys"
  by (simp add: host_calls_def)

lemma host_calls_print_results: "host_calls (print_results E v fn rs) = []"
  by (simp add: host_calls_def print_results_def print_result_at_def filter_concat comp_def)

lemma host_calls_run_function:
  "host_calls (fst (run_function E fn w)) = (if runnable fn then calls_of fn else [])"
proof (cases "runnable fn")
  case True
  then have r: "argument_types fn = []" "name fn \<noteq> []" by (simp_all add: runnable_def)
  obtain pre post where
    "fst (run_function E fn w) =
       pre @ [Outs (''--- Running '' @ sq @ name fn @ sq @ '':'' @ nl), OutsFlush, CallExecute fn,
              CallAwait (length (result_types fn))] @
       print_results E (awaited E fn w) fn (dispatched_results E fn w) @
       [CallQuiesce, CallRestart, ResultsClear] @ post"
    "host_calls pre = []" "host_calls post = []"
    using run_function_events[OF r, of E w] by blast
  then have "host_calls (fst (run_function E fn w)) =
      host_calls [Outs (''--- Running '' @ sq @ name fn @ sq @ '':'' @ nl), OutsFlush, CallExecute fn,
              CallAwait (length (result_types fn))] @
      host_calls [CallQuiesce, CallRestart, ResultsClear]"
    by (simp only: host_calls_append host_calls_print_results append_Nil append_Nil2)
  with True show ?thesis by (simp add: host_calls_def calls_of_def)
next
  case False
  then show ?thesis
    by (cases "argument_types fn = []")
       (simp_all add: runnable_def run_function_with_arguments run_function_anonymous
          host_calls_def)
qed

lemma run_function_list_append:
  "run_function_list E (xs @ ys) w =
     (case run_function_list E xs w of
        (evs, LeakAbort) \<Rightarrow> (evs, LeakAbort)
      | (evs, Continue w') \<Rightarrow>
          (case run_function_list E ys w' of (evs', r) \<Rightarrow> (evs @ evs', r)))"
proof (induction xs arbitrary: w)
  case Nil
  show ?case by (simp split: prod.split)
next
  case (Cons fn xs)
  show ?case
    by (simp add: Cons.IH split: prod.split loop_state.split)
qed

lemma host_calls_run_function_list:
  "\<exists>k. host_calls (fst (run_function_list E fns w)) =
          concat (map calls_of (take k (filter runnable fns))) \<and>
       (snd (run_function_list E fns w) \<noteq> LeakAbort \<longrightarrow> k = length (filter runnable fns))"
proof (induction fns arbitrary: w)
  case Nil
  show ?case by (simp add: host_calls_def)
next
  case (Cons fn fns)
  obtain evs r where rf: "run_function E fn w = (evs, r)" by (cases "run_function E fn w")
  have hc: "host_calls evs = (if runnable fn then calls_of fn else [])"
    using host_calls_run_function[of E fn w] rf by simp
  show ?case
  proof (cases r)
    case LeakAbort
    then have run: "runnable fn"
      using rf by (cases "argument_types fn = []"; cases "name fn = []")
        (auto simp: runnable_def run_function_with_arguments run_function_anonymous)
    show ?thesis
      by (rule exI[of _ 1]) (simp add: rf LeakAbort hc run)
  next
    case (Continue w')
    obtain evs' r' where rest: "run_function_list E fns w' = (evs', r')"
      by (cases "run_function_list E fns w'")
    obtain k where k:
      "host_calls evs' = concat (map calls_of (take k (filter runnable fns)))"
      "r' \<noteq> LeakAbort \<longrightarrow> k = length (filter runnable fns)"
      using Cons.IH[of w'] rest by auto
    show ?thesis
    proof (cases "runnable fn")
      case True
      show ?thesis
        by (rule exI[of _ "Suc k"]) (simp add: rf Continue rest hc host_calls_append k True)
    next
      case False
      show ?thesis
        by (rule exI[of _ k]) (simp add: rf Continue rest hc host_calls_append k False)
    qed
  qed
qed

lemma host_calls_load_shared_libs:
  "load_shared_libs E pn loaded libs w = (evs, r) \<Longrightarrow> host_calls evs = []"
proof (induction libs arbitrary: loaded w evs r)
  case Nil
  then show ?case by (simp add: host_calls_def)
next
  case (Cons lib_name libs)
  show ?case
  proof (cases "getPermanentLibrary E lib_name")
    case (Inl err)
    with Cons.prems show ?thesis by (auto simp: host_calls_def)
  next
    case (Inr dyn_lib)
    show ?thesis
    proof (cases "SearchForAddressOfSymbol E (loaded @ [lib_name])")
      case None
      with Cons Inr show ?thesis by simp
    next
      case (Some reg)
      obtain evs' r' where rest:
        "load_shared_libs E pn (loaded @ [lib_name]) libs (reg w) = (evs', r')"
        by (cases "load_shared_libs E pn (loaded @ [lib_name]) libs (reg w)")
      from Cons.IH[OF rest] Cons.prems Inr Some rest show ?thesis
        by (auto simp: host_calls_def)
    qed
  qed
qed

lemma run_function_list_Cons_Continue:
  "run_function E fn w = (evs, Continue w') \<Longrightarrow>
   run_function_list E (fn # fns) w =
     (evs @ fst (run_function_list E fns w'), snd (run_function_list E fns w'))"
  by (simp split: prod.split)

lemma run_function_list_Cons_LeakAbort:
  "run_function E fn w = (evs, LeakAbort) \<Longrightarrow>
   run_function_list E (fn # fns) w = (evs, LeakAbort)"
  by simp


subsection \<open>The driver as a whole\<close>

lemma run_bef_null:
  "BEFFile_Open E buffer w = (None, w1) \<Longrightarrow>
   run_bef E run_config buffer w =
     ([CallBEFFileOpen, CallVerify], Some (bool_to_int (verify E w1)), w1)"
  by (simp add: run_bef_def)

lemma run_bef_not_found:
  "BEFFile_Open E buffer w = (Some bef, w1) \<Longrightarrow>
   select_functions bef (functions_requested run_config) = Inl fn_name \<Longrightarrow>
   run_bef E run_config buffer w =
     ([CallBEFFileOpen,
       Errs (program_name run_config @ '': couldn't find function '' @ fn_name @ nl), BefReset],
      Some 1, bef_reset E w1)"
  by (simp add: run_bef_def)

lemma run_bef_leak:
  "BEFFile_Open E buffer w = (Some bef, w1) \<Longrightarrow>
   select_functions bef (functions_requested run_config) = Inr function_list \<Longrightarrow>
   run_function_list E function_list w1 = (evs, LeakAbort) \<Longrightarrow>
   run_bef E run_config buffer w = (CallBEFFileOpen # evs, None, w1)"
  by (simp add: run_bef_def)

lemma run_bef_completed:
  "BEFFile_Open E buffer w = (Some bef, w1) \<Longrightarrow>
   select_functions bef (functions_requested run_config) = Inr function_list \<Longrightarrow>
   run_function_list E function_list w1 = (evs, Continue w2) \<Longrightarrow>
   run_bef E run_config buffer w =
     (CallBEFFileOpen # evs @ [BefReset, CallVerify],
      Some (bool_to_int (verify E (bef_reset E w2))), bef_reset E w2)"
  by (simp add: run_bef_def)

lemma host_calls_run_bef:
  "\<exists>fns v. host_calls (fst (run_bef E run_config buffer w)) =
           host_calls (fst (run_function_list E fns v))"
proof -
  obtain b w1 where op: "BEFFile_Open E buffer w = (b, w1)"
    by (cases "BEFFile_Open E buffer w")
  have none: ?thesis if "host_calls (fst (run_bef E run_config buffer w)) = []"
    using that by (intro exI[of _ "[]"]) (simp add: host_calls_def)
  show ?thesis
  proof (cases b)
    case None
    with op show ?thesis by (intro none) (simp add: run_bef_null host_calls_def)
  next
    case (Some bef)
    show ?thesis
    proof (cases "select_functions bef (functions_requested run_config)")
      case (Inl fn_name)
      with op Some show ?thesis
        by (intro none) (simp add: run_bef_not_found host_calls_def)
    next
      case (Inr function_list)
      obtain evs r where lp: "run_function_list E function_list w1 = (evs, r)"
        by (cases "run_function_list E function_list w1")
      have "host_calls (fst (run_bef E run_config buffer w)) = host_calls evs"
        using op Some Inr lp
        by (cases r) (simp_all add: run_bef_leak run_bef_completed host_calls_def)
      then show ?thesis
        using lp by (metis fst_conv)
    qed
  qed
qed

lemma startup_cases:
  assumes st: "startup E run_config w = (evs, r)"
  obtains
    (ended) ended where "r = Inl ended" "host_calls evs = []"
  | (ready) buffer host_allocator choosing work_queue w1 evs' w2 where
      "openInputFile E (input_filename run_config) = Inr buffer"
      "NDEBUG E \<or> GetNumReferenceCountedObjects E w = 0"
      "choose_host_allocator (host_allocator_type run_config) = (host_allocator, choosing)"
      "CreateWorkQueue E (work_queue_type run_config) = Some work_queue"
      "NDEBUG E \<or> GetNumAsyncValueInstances E w = 0"
      "CoreRuntime_Create E host_allocator work_queue (devices run_config) w = Inr w1"
      "load_shared_libs E (program_name run_config) [] (shared_libs run_config) w1 =
         (evs', True, w2)"
      "evs = [Outs choosing, OutsFlush,
              Outs (''Choosing '' @ work_queue @ '' work queue.'' @ nl), OutsFlush,
              CallCreateCoreRuntime host_allocator work_queue (devices run_config)] @ evs'"
      "r = Inr (buffer, w2)"
proof (cases "openInputFile E (input_filename run_config)")
  case (Inl m)
  with st have "r = Inl (Returned 1)" "host_calls evs = []"
    by (auto simp: startup_def host_calls_def)
  then show ?thesis by (rule ended)
next
  case (Inr buffer)
  show ?thesis
  proof (cases "NDEBUG E \<or> GetNumReferenceCountedObjects E w = 0")
    case False
    with st Inr have "r = Inl AssertionFailed" "host_calls evs = []"
      by (auto simp: startup_def host_calls_def)
    then show ?thesis by (rule ended)
  next
    case a1: True
    obtain host_allocator choosing where
      ch: "choose_host_allocator (host_allocator_type run_config) = (host_allocator, choosing)"
      by (cases "choose_host_allocator (host_allocator_type run_config)")
    show ?thesis
    proof (cases "CreateWorkQueue E (work_queue_type run_config)")
      case None
      with st Inr a1 ch have "r = Inl (Returned 1)" "host_calls evs = []"
        by (auto simp: startup_def host_calls_def)
      then show ?thesis by (rule ended)
    next
      case (Some work_queue)
      show ?thesis
      proof (cases "NDEBUG E \<or> GetNumAsyncValueInstances E w = 0")
        case False
        with st Inr a1 ch Some have "r = Inl AssertionFailed" "host_calls evs = []"
          by (auto simp: startup_def host_calls_def Let_def)
        then show ?thesis by (rule ended)
      next
        case a2: True
        show ?thesis
        proof (cases "CoreRuntime_Create E host_allocator work_queue (devices run_config) w")
          case (Inl err)
          with st Inr a1 ch Some a2
          have "r = Inl (async_value_guard E 1 w)" "host_calls evs = []"
            by (auto simp: startup_def host_calls_def Let_def)
          then show ?thesis by (rule ended)
        next
          case created: (Inr w1)
          obtain evs' all_loaded w2 where
            libs: "load_shared_libs E (program_name run_config) [] (shared_libs run_config)
                     w1 = (evs', all_loaded, w2)"
            by (cases "load_shared_libs E (program_name run_config) [] (shared_libs run_config)
                         w1")
              auto
          have silent: "host_calls evs' = []"
            by (rule host_calls_load_shared_libs[OF libs])
          show ?thesis
          proof (cases all_loaded)
            case False
            with st Inr a1 ch Some a2 created libs silent
            have "r = Inl (async_value_guard E 1 (destroy_core_rt E w2))" "host_calls evs = []"
              by (auto simp: startup_def host_calls_def Let_def)
            then show ?thesis by (rule ended)
          next
            case loaded: True
            from st Inr a1 ch Some a2 created libs loaded
            have "evs = [Outs choosing, OutsFlush,
              Outs (''Choosing '' @ work_queue @ '' work queue.'' @ nl), OutsFlush,
              CallCreateCoreRuntime host_allocator work_queue (devices run_config)] @ evs'"
              "r = Inr (buffer, w2)"
              by (auto simp: startup_def Let_def)
            with Inr a1 ch Some a2 created libs loaded show ?thesis
              by (intro ready[of buffer host_allocator choosing work_queue w1 evs' w2]) simp_all
          qed
        qed
      qed
    qed
  qed
qed

lemma host_calls_startup: "startup E run_config w = (evs, r) \<Longrightarrow> host_calls evs = []"
proof (erule startup_cases)
  fix buffer host_allocator choosing work_queue w1 evs' w2
  assume "load_shared_libs E (program_name run_config) [] (shared_libs run_config) w1 =
      (evs', True, w2)"
    and "evs = [Outs choosing, OutsFlush,
              Outs (''Choosing '' @ work_queue @ '' work queue.'' @ nl), OutsFlush,
              CallCreateCoreRuntime host_allocator work_queue (devices run_config)] @ evs'"
  then show "host_calls evs = []"
    using host_calls_load_shared_libs[of E "program_name run_config" "[]"
        "shared_libs run_config" w1 evs' "(True, w2)"]
    by (simp add: host_calls_def)
qed

lemma RunBefExecutor_ended:
  "startup E run_config w = (evs, Inl ended) \<Longrightarrow> RunBefExecutor E run_config w = (evs, ended)"
  by (simp add: RunBefExecutor_def)

lemma RunBefExecutor_aborted:
  "startup E run_config w = (evs, Inr (buffer, w2)) \<Longrightarrow>
   run_bef E run_config buffer w2 = (evs', None, w3) \<Longrightarrow>
   RunBefExecutor E run_config w = (evs @ evs', Aborted)"
  by (simp add: RunBefExecutor_def)

lemma RunBefExecutor_returned:
  "startup E run_config w = (evs, Inr (buffer, w2)) \<Longrightarrow>
   run_bef E run_config buffer w2 = (evs', Some r, w3) \<Longrightarrow>
   RunBefExecutor E run_config w =
     (evs @ evs', async_value_guard E r (destroy_core_rt E w3))"
  by (simp add: RunBefExecutor_def)

lemma host_calls_RunBefExecutor:
  "\<exists>fns. host_calls (fst (RunBefExecutor E run_config w)) = concat (map calls_of fns) \<and>
         (\<forall>fn\<in>set fns. runnable fn)"
proof -
  obtain evs r where st: "startup E run_config w = (evs, r)"
    by (cases "startup E run_config w")
  have silent: "host_calls evs = []" by (rule host_calls_startup[OF st])
  have "\<exists>fns v. host_calls (fst (RunBefExecutor E run_config w)) =
           host_calls (fst (run_function_list E fns v))"
  proof (cases r)
    case (Inl ended)
    have "host_calls (fst (RunBefExecutor E run_config w)) = []"
      using RunBefExecutor_ended[OF st[unfolded Inl]] silent by simp
    then have "host_calls (fst (RunBefExecutor E run_config w)) =
           host_calls (fst (run_function_list E [] w))"
      by (simp add: host_calls_def)
    then show ?thesis by blast
  next
    case (Inr bw)
    obtain buffer w2 where bw: "bw = (buffer, w2)" by (cases bw)
    obtain evs' r' w3 where rb: "run_bef E run_config buffer w2 = (evs', r', w3)"
      by (cases "run_bef E run_config buffer w2") auto
    have st': "startup E run_config w = (evs, Inr (buffer, w2))"
      using st Inr bw by simp
    have "fst (RunBefExecutor E run_config w) = evs @ evs'"
    proof (cases r')
      case None
      show ?thesis using RunBefExecutor_aborted[OF st' rb[unfolded None]] by simp
    next
      case (Some x)
      show ?thesis using RunBefExecutor_returned[OF st' rb[unfolded Some]] by simp
    qed
    then have "host_calls (fst (RunBefExecutor E run_config w)) =
        host_calls (fst (run_bef E run_config buffer w2))"
      by (simp add: host_calls_append silent rb)
    then show ?thesis
      using host_calls_run_bef[of E run_config buffer w2] by simp
  qed
  then obtain fns v where eq:
    "host_calls (fst (RunBefExecutor E run_config w)) =
       host_calls (fst (run_function_list E fns v))" by blast
  obtain k where k:
    "host_calls (fst (run_function_list E fns v)) =
       concat (map calls_of (take k (filter runnable fns)))"
    using host_calls_run_function_list[of E fns v] by blast
  have all: "\<forall>fn\<in>set (take k (filter runnable fns)). runnable fn"
    by (auto dest: in_set_takeD)
  have "host_calls (fst (RunBefExecutor E run_config w)) =
      concat (map calls_of (take k (filter runnable fns)))"
    by (rule trans[OF eq k])
  with all show ?thesis by blast
qed

lemma executed_is_runnable:
  assumes "CallExecute fn \<in> set (fst (RunBefExecutor E run_config w))"
  shows "runnable fn"
proof -
  obtain fns where fns:
    "host_calls (fst (RunBefExecutor E run_config w)) = concat (map calls_of fns)"
    "\<forall>fn\<in>set fns. runnable fn"
    using host_calls_RunBefExecutor[of E run_config w] by blast
  from assms have "CallExecute fn \<in> set (host_calls (fst (RunBefExecutor E run_config w)))"
    by (simp add: host_calls_def)
  then have "CallExecute fn \<in> (\<Union>g\<in>set fns. set (calls_of g))"
    by (simp add: fns(1))
  then obtain g where g: "g \<in> set fns" "CallExecute fn \<in> set (calls_of g)"
    by blast
  then have "g = fn" by (simp add: calls_of_def)
  with g(1) fns(2) show ?thesis by blast
qed

lemma run_function_tracked:
  assumes "AsyncValueAllocationTrackingEnabled E" "argument_types fn = []" "name fn \<noteq> []"
  shows "run_function E fn w =
     ([ReadNumAsyncValues (GetNumAsyncValueInstances E w)] @ iteration_events E fn w @
      ReadNumAsyncValues (GetNumAsyncValueInstances E (released E fn w)) #
      (if GetNumAsyncValueInstances E w \<noteq> GetNumAsyncValueInstances E (released E fn w)
       then [Errs (leak_message E fn (GetNumAsyncValueInstances E w)
                     (GetNumAsyncValueInstances E (released E fn w)))]
       else []),
      if GetNumAsyncValueInstances E w \<noteq> GetNumAsyncValueInstances E (released E fn w)
      then LeakAbort else Continue (released E fn w))"
  using assms(1)
  by (simp add: run_function_runnable[OF assms(2,3)] Let_def iteration_events_def)

lemma RunBefExecutor_leak:
  assumes "startup E run_config w0 = (evs0, Inr (buffer, v))"
    and "BEFFile_Open E buffer v = (Some bef, v1)"
    and "select_functions bef (functions_requested run_config) = Inr function_list"
    and "run_function_list E function_list v1 = (evs, LeakAbort)"
  shows "RunBefExecutor E run_config w0 = (evs0 @ CallBEFFileOpen # evs, Aborted)"
  using RunBefExecutor_aborted[OF assms(1) run_bef_leak[OF assms(2,3,4)]] .

lemma RunBefExecutor_completed:
  assumes "startup E run_config w0 = (evs0, Inr (buffer, v))"
    and "BEFFile_Open E buffer v = (Some bef, v1)"
    and "select_functions bef (functions_requested run_config) = Inr function_list"
    and "run_function_list E function_list v1 = (evs, Continue v2)"
  shows "RunBefExecutor E run_config w0 =
     (evs0 @ CallBEFFileOpen # evs @ [BefReset, CallVerify],
      async_value_guard E (bool_to_int (verify E (bef_reset E v2)))
        (destroy_core_rt E (bef_reset E v2)))"
  using RunBefExecutor_returned[OF assms(1) run_bef_completed[OF assms(2,3,4)]] by simp

lemma resolve_functions_first_unresolved:
  "\<exists>n\<in>set names. GetFunction bef n = None \<Longrightarrow>
   \<exists>before n after. names = before @ n # after \<and>
     (\<forall>m\<in>set before. GetFunction bef m \<noteq> None) \<and> GetFunction bef n = None \<and>
     resolve_functions bef names function_list = Inl n"
proof (induction names arbitrary: function_list)
  case Nil
  then show ?case by simp
next
  case (Cons a names)
  show ?case
  proof (cases "GetFunction bef a")
    case None
    then have "a # names = [] @ a # names \<and>
       (\<forall>m\<in>set []. GetFunction bef m \<noteq> None) \<and> GetFunction bef a = None \<and>
       resolve_functions bef (a # names) function_list = Inl a"
      by simp
    then show ?thesis by blast
  next
    case (Some fn)
    with Cons.prems have "\<exists>n\<in>set names. GetFunction bef n = None" by auto
    from Cons.IH[OF this, of "function_list @ [fn]"]
    obtain before n after where *: "names = before @ n # after"
      "\<forall>m\<in>set before. GetFunction bef m \<noteq> None" "GetFunction bef n = None"
      "resolve_functions bef names (function_list @ [fn]) = Inl n"
      by blast
    have "a # names = (a # before) @ n # after \<and>
       (\<forall>m\<in>set (a # before). GetFunction bef m \<noteq> None) \<and> GetFunction bef n = None \<and>
       resolve_functions bef (a # names) function_list = Inl n"
      using * Some by simp
    then show ?thesis by blast
  qed
qed

lemma resolve_functions_all_resolved:
  "\<forall>n\<in>set names. GetFunction bef n \<noteq> None \<Longrightarrow>
   resolve_functions bef names function_list =
     Inr (function_list @ map (\<lambda>n. the (GetFunction bef n)) names)"
  by (induction names arbitrary: function_list) auto

lemma no_host_calls_no_Execute:
  "host_calls evs = [] \<Longrightarrow> CallExecute fn \<notin> set evs"
proof
  assume none: "host_calls evs = []" and ex: "CallExecute fn \<in> set evs"
  from ex have "CallExecute fn \<in> set (host_calls evs)" by (simp add: host_calls_def)
  then show False by (simp add: none)
qed

lemma async_value_guard_cases:
  "async_value_guard E r u = Returned r \<or> async_value_guard E r u = AssertionFailed"
  "NDEBUG E \<or> GetNumAsyncValueInstances E u = 0 \<and> GetNumReferenceCountedObjects E u = 0 \<Longrightarrow>
   async_value_guard E r u = Returned r"
  by (auto simp: async_value_guard_def)

lemma async_value_guard_fails:
  "\<not> NDEBUG E \<and>
   (GetNumAsyncValueInstances E u \<noteq> 0 \<or> GetNumReferenceCountedObjects E u \<noteq> 0) \<Longrightarrow>
   async_value_guard E r u = AssertionFailed"
  by (auto simp: async_value_guard_def)

lemma run_function_state:
  assumes "runnable fn"
  shows "snd (run_function E fn v) = LeakAbort \<or>
         snd (run_function E fn v) = Continue (released E fn v)"
proof -
  from assms have r: "argument_types fn = []" "name fn \<noteq> []" by (simp_all add: runnable_def)
  show ?thesis
    by (simp add: run_function_runnable[OF r] Let_def)
qed

subsection \<open>The example runtime\<close>

lemma test_startup:
  "snd (startup (test_env fns) (test_config requested) test_world0) =
     Inr ([], test_world0\<lparr>live_rc_objects := 1\<rparr>)"
  by (simp add: startup_def test_env_def test_config_def test_world0_def Let_def
      split: prod.split)

lemma test_BEFFile_Open:
  "BEFFile_Open (test_env fns) [] v = (Some (test_bef fns), v)"
  by (simp add: test_env_def)

lemma test_startup_full:
  "startup (test_env fns) (test_config requested) test_world0 =
     (test_startup_events, Inr ([], test_world0\<lparr>live_rc_objects := 1\<rparr>))"
  by (simp add: startup_def test_env_def test_config_def test_world0_def Let_def
      test_startup_events_def split: prod.split)

lemma test_startup_bad:
  "startup (test_env fns) ((test_config requested)\<lparr>input_filename := ''bad.mlir''\<rparr>) test_world0 =
     (test_startup_events, Inr ([0], test_world0\<lparr>live_rc_objects := 1\<rparr>))"
  by (simp add: startup_def test_env_def test_config_def test_world0_def Let_def
      test_startup_events_def split: prod.split)

lemma decimal_exponent_example:
  "decimal_exponent 5629499534213120 2251799813685248 = 0"
  by (simp add: decimal_exponent_def at_least_power_of_ten_def)

lemma seven_digits_example:
  "seven_digits 5629499534213120 2251799813685248 0 = 2500000"
  by (simp add: seven_digits_def round_half_even_def)

lemma mantissa_and_exponent_example:
  "mantissa_and_exponent 2500000 0 = ''2.500000e+00''"
  by (simp add: mantissa_and_exponent_def)

lemma exponent_notation_example:
  "exponent_notation False 5629499534213120 2251799813685248 = ''2.500000e+00''"
  by (simp add: exponent_notation_def decimal_exponent_example seven_digits_example
      mantissa_and_exponent_example)

lemma raw_ostream_double_example:
  "raw_ostream_double 0x4004000000000000 = ''2.500000e+00''"
  by (simp add: raw_ostream_double_def exponent_notation_example)

lemma raw_ostream_int32_example: "raw_ostream_int32 3 = ''3''"
  by (simp add: raw_ostream_int32_def signed_decimal_def)

lemma test_results:
  "dispatched_results (test_env fns) fn_values w = [VInt32 3, VDouble 0x4004000000000000]"
  "dispatched_results (test_env fns) fn_div w = [VInt32 3, VError ''div by zero'']"
  by (simp_all add: dispatched_results_def test_env_def test_Execute_def test_slots_def
      fn_values_def fn_div_def upt_rec)

lemma test_stream:
  "out_int32 (test_env fns) = raw_ostream_int32"
  "out_double (test_env fns) = raw_ostream_double"
  by (simp_all add: test_env_def)

lemma test_values_line:
  "outs_text (print_results (test_env []) (awaited (test_env []) fn_values test_world0)
     fn_values (dispatched_results (test_env []) fn_values test_world0)) =
   sq @ ''name'' @ sq @ '' returned 3,2.500000e+00'' @ nl"
proof -
  let ?E = "test_env []"
  let ?v = "awaited ?E fn_values test_world0"
  have types: "result_types fn_values = [''i32'', ''f64'']" and nm: "name fn_values = ''name''"
    by (simp_all add: fn_values_def)
  have first: "print_result ?E ?v ''i32'' (VInt32 3) = raw_ostream_int32 3"
    and second: "print_result ?E ?v ''f64'' (VDouble 0x4004000000000000) =
      raw_ostream_double 0x4004000000000000"
    by (simp_all add: print_result_def test_env_def)
  have items: "map (\<lambda>i. print_result ?E ?v (result_types fn_values ! i)
                   (dispatched_results ?E fn_values test_world0 ! i))
          [0..<length (result_types fn_values)] =
     [raw_ostream_int32 3, raw_ostream_double 0x4004000000000000]"
    by (simp add: types test_results upt_rec first second)
  have "outs_text (print_results ?E ?v fn_values (dispatched_results ?E fn_values test_world0)) =
     sq @ name fn_values @ sq @ '' returned '' @
     comma_separated
       (map (\<lambda>i. print_result ?E ?v (result_types fn_values ! i)
                   (dispatched_results ?E fn_values test_world0 ! i))
          [0..<length (result_types fn_values)]) @ nl"
    by (rule outs_text_print_results) (simp_all add: types)
  then show ?thesis
    by (simp only: items nm comma_separated.simps raw_ostream_int32_example
        raw_ostream_double_example) simp
qed

lemma test_load_two_libs:
  "load_shared_libs (test_env fns) pn [] [''kernels.so'', ''plain.so''] w =
     ([CallRegisterKernels ''kernels.so'', CallRegisterKernels ''plain.so''], True, w)"
  by (simp add: test_env_def)

lemma leaky_startup_full:
  "startup (leaky_env fns) (test_config requested) test_world0 =
     (test_startup_events, Inr ([], test_world0\<lparr>live_rc_objects := 1\<rparr>))"
  by (simp add: startup_def leaky_env_def test_env_def test_config_def test_world0_def Let_def
      test_startup_events_def split: prod.split)

lemma leaky_startup_expected:
  "startup (leaky_env fns) ((test_config requested)\<lparr>input_filename := ''expected.mlir''\<rparr>)
     test_world0 =
     (test_startup_events, Inr ([1], test_world0\<lparr>live_rc_objects := 1\<rparr>))"
  by (simp add: startup_def leaky_env_def test_env_def test_config_def test_world0_def Let_def
      test_startup_events_def split: prod.split)

subsection \<open>The report of the results\<close>

text \<open>
  C1, as the code has it. A function that is run and declares at least one result:
  after \<^verbatim>\<open>Execute\<close> and \<^verbatim>\<open>Await\<close>, and before \<^verbatim>\<open>Quiesce\<close>, the driver writes
  the name in single quotes, \<^verbatim>\<open> returned \<close>, the results in declared order separated
  by commas with no comma after the last, and a newline; before that the function's
  iteration has written only the \<^verbatim>\<open>--- Running\<close> line, and after it nothing. A result
  that holds an error is written as \<^verbatim>\<open><<error: message>>\<close>; otherwise a result of
  declared type \<^verbatim>\<open>i1\<close>, \<^verbatim>\<open>i32\<close>, \<^verbatim>\<open>i64\<close>, \<^verbatim>\<open>f32\<close> or \<^verbatim>\<open>f64\<close> is written as
  the stream writes its \<^verbatim>\<open>bool\<close>, \<^verbatim>\<open>int32_t\<close>, \<^verbatim>\<open>int64_t\<close>, \<^verbatim>\<open>float\<close> or
  \<^verbatim>\<open>double\<close> value, and a result of any other type as the type name followed by
  \<^verbatim>\<open> value\<close>. For the result types \<^verbatim>\<open>[i32, f64]\<close> and the values 3 and 2.5 (the
  double with the bits \<open>0x4004000000000000\<close>) the line is the name, \<^verbatim>\<open> returned \<close>,
  what the stream writes for 3, a comma and what the stream writes for 2.5; with
  \<^verbatim>\<open>raw_ostream\<close>, which writes a \<^verbatim>\<open>double\<close> in exponent notation, it is
  \<^verbatim>\<open>'name' returned 3,2.500000e+00\<close>. With the error \<^verbatim>\<open>div by zero\<close> as second
  result it is \<^verbatim>\<open>'name' returned 3,<<error: div by zero>>\<close>.
\<close>

theorem report_line_of_results:
  assumes "argument_types fn = []" and "name fn \<noteq> []" and "result_types fn \<noteq> []"
  shows
   "(\<exists>pre post.
        fst (run_function E fn w) =
          pre @ [CallExecute fn, CallAwait (length (result_types fn))] @
          print_results E (awaited E fn w) fn (dispatched_results E fn w) @
          CallQuiesce # post \<and>
        outs_text pre = ''--- Running '' @ sq @ name fn @ sq @ '':'' @ nl \<and>
        outs_text post = []) \<and>
    outs_text (print_results E (awaited E fn w) fn (dispatched_results E fn w)) =
      sq @ name fn @ sq @ '' returned '' @
      comma_separated
        (map (\<lambda>i. print_result E (awaited E fn w) (result_types fn ! i)
                    (dispatched_results E fn w ! i))
           [0..<length (result_types fn)]) @ nl \<and>
    (\<forall>v t r m. GetErrorIfPresent E v r = Some m \<longrightarrow>
        print_result E v t r = ''<<error: '' @ m @ ''>>'') \<and>
    (\<forall>v r. GetErrorIfPresent E v r = None \<longrightarrow>
        print_result E v ''i1'' r = out_bool E (get_bool E v r) \<and>
        print_result E v ''i32'' r = out_int32 E (get_int32 E v r) \<and>
        print_result E v ''i64'' r = out_int64 E (get_int64 E v r) \<and>
        print_result E v ''f32'' r = out_float E (get_float E v r) \<and>
        print_result E v ''f64'' r = out_double E (get_double E v r) \<and>
        (\<forall>t. t \<notin> set [''i1'', ''i32'', ''i64'', ''f32'', ''f64''] \<longrightarrow>
           print_result E v t r = t @ '' value'')) \<and>
    (\<forall>r1 r2.
        result_types fn = [''i32'', ''f64''] \<and> dispatched_results E fn w = [r1, r2] \<and>
        GetErrorIfPresent E (awaited E fn w) r1 = None \<and>
        get_int32 E (awaited E fn w) r1 = 3 \<longrightarrow>
        (GetErrorIfPresent E (awaited E fn w) r2 = None \<and>
         get_double E (awaited E fn w) r2 = 0x4004000000000000 \<longrightarrow>
         outs_text (print_results E (awaited E fn w) fn (dispatched_results E fn w)) =
           sq @ name fn @ sq @ '' returned '' @ out_int32 E 3 @ '','' @
           out_double E 0x4004000000000000 @ nl \<and>
         (out_int32 E = raw_ostream_int32 \<and> out_double E = raw_ostream_double \<longrightarrow>
          outs_text (print_results E (awaited E fn w) fn (dispatched_results E fn w)) =
            sq @ name fn @ sq @ '' returned 3,2.500000e+00'' @ nl)) \<and>
        (GetErrorIfPresent E (awaited E fn w) r2 = Some ''div by zero'' \<longrightarrow>
         outs_text (print_results E (awaited E fn w) fn (dispatched_results E fn w)) =
           sq @ name fn @ sq @ '' returned '' @ out_int32 E 3 @
           '',<<error: div by zero>>'' @ nl \<and>
         (out_int32 E = raw_ostream_int32 \<longrightarrow>
          outs_text (print_results E (awaited E fn w) fn (dispatched_results E fn w)) =
            sq @ name fn @ sq @ '' returned 3,<<error: div by zero>>'' @ nl)))"
proof -
  let ?rs = "dispatched_results E fn w" and ?v = "awaited E fn w"
  obtain pre post where ev:
    "fst (run_function E fn w) =
       pre @ [Outs (''--- Running '' @ sq @ name fn @ sq @ '':'' @ nl), OutsFlush, CallExecute fn,
              CallAwait (length (result_types fn))] @
       print_results E ?v fn ?rs @ [CallQuiesce, CallRestart, ResultsClear] @ post"
    and silent: "outs_text pre = []" "outs_text post = []"
    using run_function_events[OF assms(1,2), of E w] by blast
  have shape: "\<exists>pre post.
        fst (run_function E fn w) =
          pre @ [CallExecute fn, CallAwait (length (result_types fn))] @
          print_results E ?v fn ?rs @ CallQuiesce # post \<and>
        outs_text pre = ''--- Running '' @ sq @ name fn @ sq @ '':'' @ nl \<and>
        outs_text post = []"
    apply (rule exI[of _ "pre @ [Outs (''--- Running '' @ sq @ name fn @ sq @ '':'' @ nl), OutsFlush]"])
    apply (rule exI[of _ "[CallRestart, ResultsClear] @ post"])
    apply (simp add: ev silent outs_text_append)
    done
  have line: "outs_text (print_results E ?v fn ?rs) =
      sq @ name fn @ sq @ '' returned '' @
      comma_separated (map (\<lambda>i. print_result E ?v (result_types fn ! i) (?rs ! i))
           [0..<length (result_types fn)]) @ nl"
    by (rule outs_text_print_results) (simp_all add: assms(3))
  have example: "outs_text (print_results E ?v fn ?rs) =
           sq @ name fn @ sq @ '' returned '' @ out_int32 E 3 @ '','' @
           print_result E ?v ''f64'' r2 @ nl"
    if "result_types fn = [''i32'', ''f64''] \<and> ?rs = [r1, r2] \<and>
        GetErrorIfPresent E ?v r1 = None \<and> get_int32 E ?v r1 = 3"
    for r1 r2
    using line that by (simp add: upt_rec print_result_cases(3))
  have value_line: "outs_text (print_results E ?v fn ?rs) =
           sq @ name fn @ sq @ '' returned '' @ out_int32 E 3 @ '','' @
           out_double E 0x4004000000000000 @ nl"
    if "result_types fn = [''i32'', ''f64''] \<and> ?rs = [r1, r2] \<and>
        GetErrorIfPresent E ?v r1 = None \<and> get_int32 E ?v r1 = 3"
       "GetErrorIfPresent E ?v r2 = None \<and> get_double E ?v r2 = 0x4004000000000000"
    for r1 r2
    using example[OF that(1)] that(2) by (simp add: print_result_cases(6))
  have error_line: "outs_text (print_results E ?v fn ?rs) =
           sq @ name fn @ sq @ '' returned '' @ out_int32 E 3 @
           '',<<error: div by zero>>'' @ nl"
    if "result_types fn = [''i32'', ''f64''] \<and> ?rs = [r1, r2] \<and>
        GetErrorIfPresent E ?v r1 = None \<and> get_int32 E ?v r1 = 3"
       "GetErrorIfPresent E ?v r2 = Some ''div by zero''"
    for r1 r2
    using example[OF that(1)] that(2) by (simp add: print_result_cases(1))
  show ?thesis
  proof (intro conjI allI impI)
    show "\<exists>pre post.
        fst (run_function E fn w) =
          pre @ [CallExecute fn, CallAwait (length (result_types fn))] @
          print_results E ?v fn ?rs @ CallQuiesce # post \<and>
        outs_text pre = ''--- Running '' @ sq @ name fn @ sq @ '':'' @ nl \<and>
        outs_text post = []"
      by (rule shape)
    show "outs_text (print_results E ?v fn ?rs) =
      sq @ name fn @ sq @ '' returned '' @
      comma_separated (map (\<lambda>i. print_result E ?v (result_types fn ! i) (?rs ! i))
           [0..<length (result_types fn)]) @ nl"
      by (rule line)
    show "print_result E v t r = ''<<error: '' @ m @ ''>>''"
      if "GetErrorIfPresent E v r = Some m" for v t r m
      by (rule print_result_cases(1)[OF that])
    show "print_result E v ''i1'' r = out_bool E (get_bool E v r)"
      if "GetErrorIfPresent E v r = None" for v r
      by (rule print_result_cases(2)[OF that])
    show "print_result E v ''i32'' r = out_int32 E (get_int32 E v r)"
      if "GetErrorIfPresent E v r = None" for v r
      by (rule print_result_cases(3)[OF that])
    show "print_result E v ''i64'' r = out_int64 E (get_int64 E v r)"
      if "GetErrorIfPresent E v r = None" for v r
      by (rule print_result_cases(4)[OF that])
    show "print_result E v ''f32'' r = out_float E (get_float E v r)"
      if "GetErrorIfPresent E v r = None" for v r
      by (rule print_result_cases(5)[OF that])
    show "print_result E v ''f64'' r = out_double E (get_double E v r)"
      if "GetErrorIfPresent E v r = None" for v r
      by (rule print_result_cases(6)[OF that])
    show "print_result E v t r = t @ '' value''"
      if "GetErrorIfPresent E v r = None"
        and "t \<notin> set [''i1'', ''i32'', ''i64'', ''f32'', ''f64'']" for v r t
      by (rule print_result_cases(7)[OF that])
  next
    fix r1 r2
    assume given: "result_types fn = [''i32'', ''f64''] \<and> ?rs = [r1, r2] \<and>
        GetErrorIfPresent E ?v r1 = None \<and> get_int32 E ?v r1 = 3"
    {
      assume second: "GetErrorIfPresent E ?v r2 = None \<and>
         get_double E ?v r2 = 0x4004000000000000"
      show "outs_text (print_results E ?v fn ?rs) =
           sq @ name fn @ sq @ '' returned '' @ out_int32 E 3 @ '','' @
           out_double E 0x4004000000000000 @ nl"
        by (rule value_line[OF given second])
      assume "out_int32 E = raw_ostream_int32 \<and> out_double E = raw_ostream_double"
      then show "outs_text (print_results E ?v fn ?rs) =
            sq @ name fn @ sq @ '' returned 3,2.500000e+00'' @ nl"
        using value_line[OF given second]
        by (simp add: raw_ostream_int32_example raw_ostream_double_example)
    }
    {
      assume second: "GetErrorIfPresent E ?v r2 = Some ''div by zero''"
      show "outs_text (print_results E ?v fn ?rs) =
           sq @ name fn @ sq @ '' returned '' @ out_int32 E 3 @
           '',<<error: div by zero>>'' @ nl"
        by (rule error_line[OF given second])
      assume "out_int32 E = raw_ostream_int32"
      then show "outs_text (print_results E ?v fn ?rs) =
            sq @ name fn @ sq @ '' returned 3,<<error: div by zero>>'' @ nl"
        using error_line[OF given second]
        by (simp add: raw_ostream_int32_example)
    }
  qed
qed

text \<open>
  The two examples of C1 on the example runtime: \<open>fn_values\<close> resolves to 3 and 2.5,
  \<open>fn_div\<close> to 3 and the error \<^verbatim>\<open>div by zero\<close>.
\<close>

theorem report_line_of_results_witness:
  "argument_types fn_values = [] \<and> name fn_values \<noteq> [] \<and> result_types fn_values \<noteq> [] \<and>
   argument_types fn_div = [] \<and> name fn_div \<noteq> [] \<and> result_types fn_div \<noteq> [] \<and>
   outs_text (print_results (test_env []) (awaited (test_env []) fn_values test_world0) fn_values
     (dispatched_results (test_env []) fn_values test_world0)) =
     sq @ ''name'' @ sq @ '' returned 3,2.500000e+00'' @ nl \<and>
   outs_text (print_results (test_env []) (awaited (test_env []) fn_div test_world0) fn_div
     (dispatched_results (test_env []) fn_div test_world0)) =
     sq @ ''div'' @ sq @ '' returned 3,<<error: div by zero>>'' @ nl"
proof -
  let ?E = "test_env []"
  have a: "argument_types fn_values = []" "name fn_values \<noteq> []" "result_types fn_values \<noteq> []"
    and b: "argument_types fn_div = []" "name fn_div \<noteq> []" "result_types fn_div \<noteq> []"
    by (simp_all add: fn_values_def fn_div_def)
  have ta: "result_types fn_values = [''i32'', ''f64'']" "name fn_values = ''name''"
    and tb: "result_types fn_div = [''i32'', ''f64'']" "name fn_div = ''div''"
    by (simp_all add: fn_values_def fn_div_def)
  have va: "GetErrorIfPresent ?E (awaited ?E fn_values test_world0) (VInt32 3) = None"
    "get_int32 ?E (awaited ?E fn_values test_world0) (VInt32 3) = 3"
    "GetErrorIfPresent ?E (awaited ?E fn_values test_world0) (VDouble 0x4004000000000000) = None"
    "get_double ?E (awaited ?E fn_values test_world0) (VDouble 0x4004000000000000) =
       0x4004000000000000"
    and vb: "GetErrorIfPresent ?E (awaited ?E fn_div test_world0) (VInt32 3) = None"
    "get_int32 ?E (awaited ?E fn_div test_world0) (VInt32 3) = 3"
    "GetErrorIfPresent ?E (awaited ?E fn_div test_world0) (VError ''div by zero'') =
       Some ''div by zero''"
    by (simp_all add: test_env_def)
  have 1: "outs_text (print_results ?E (awaited ?E fn_values test_world0) fn_values
     (dispatched_results ?E fn_values test_world0)) =
     sq @ name fn_values @ sq @ '' returned 3,2.500000e+00'' @ nl"
    using report_line_of_results[OF a, of ?E test_world0] ta(1)
      test_results(1)[of "[]" test_world0] va test_stream[of "[]"]
    by blast
  have 2: "outs_text (print_results ?E (awaited ?E fn_div test_world0) fn_div
     (dispatched_results ?E fn_div test_world0)) =
     sq @ name fn_div @ sq @ '' returned 3,<<error: div by zero>>'' @ nl"
    using report_line_of_results[OF b, of ?E test_world0] tb(1)
      test_results(2)[of "[]" test_world0] vb test_stream(1)[of "[]"]
    by blast
  from a b 1 2 show ?thesis
    by (simp only: ta(2) tb(2)) blast
qed

text \<open>
  The example of C1 as the claim has it fails: the function \<open>fn_values\<close> declares
  \<^verbatim>\<open>[i32, f64]\<close> and resolves to 3 and 2.5, and the line the driver writes is not
  \<^verbatim>\<open>'name' returned 3,2.5\<close>.
\<close>

theorem report_line_example_counterexample:
  "result_types fn_values = [''i32'', ''f64''] \<and>
   dispatched_results (test_env []) fn_values test_world0 =
     [VInt32 3, VDouble 0x4004000000000000] \<and>
   outs_text (print_results (test_env []) (awaited (test_env []) fn_values test_world0)
     fn_values (dispatched_results (test_env []) fn_values test_world0)) \<noteq>
   sq @ ''name'' @ sq @ '' returned 3,2.5'' @ nl"
proof -
  have types: "result_types fn_values = [''i32'', ''f64'']"
    by (simp add: fn_values_def)
  have differ: "sq @ ''name'' @ sq @ '' returned 3,2.500000e+00'' @ nl \<noteq>
      sq @ ''name'' @ sq @ '' returned 3,2.5'' @ nl"
    by (simp add: nl_def)
  have "outs_text (print_results (test_env []) (awaited (test_env []) fn_values test_world0)
     fn_values (dispatched_results (test_env []) fn_values test_world0)) \<noteq>
   sq @ ''name'' @ sq @ '' returned 3,2.5'' @ nl"
    unfolding test_values_line by (rule differ)
  with types test_results(1)[of "[]" test_world0] show ?thesis by blast
qed

text \<open>
  C10. A function that is run: the report is empty exactly when the function declares
  no result. With no result the iteration writes the \<^verbatim>\<open>--- Running\<close> line and nothing
  else, and \<^verbatim>\<open>Quiesce\<close> follows \<^verbatim>\<open>Await\<close> directly; with at least one result it
  writes the \<^verbatim>\<open>--- Running\<close> line and then the line of the results.
\<close>

theorem report_only_with_results:
  assumes "argument_types fn = []" and "name fn \<noteq> []"
  shows
    "(print_results E (awaited E fn w) fn (dispatched_results E fn w) = [] \<longleftrightarrow>
        result_types fn = []) \<and>
     (result_types fn = [] \<longrightarrow>
        (\<exists>pre post.
           fst (run_function E fn w) =
             pre @ [Outs (''--- Running '' @ sq @ name fn @ sq @ '':'' @ nl), OutsFlush,
                    CallExecute fn, CallAwait 0, CallQuiesce, CallRestart, ResultsClear] @ post \<and>
           outs_text pre = [] \<and> outs_text post = []) \<and>
        outs_text (fst (run_function E fn w)) =
          ''--- Running '' @ sq @ name fn @ sq @ '':'' @ nl) \<and>
     (result_types fn \<noteq> [] \<longrightarrow>
        outs_text (fst (run_function E fn w)) =
          ''--- Running '' @ sq @ name fn @ sq @ '':'' @ nl @
          sq @ name fn @ sq @ '' returned '' @
          comma_separated
            (map (\<lambda>i. print_result E (awaited E fn w) (result_types fn ! i)
                        (dispatched_results E fn w ! i))
               [0..<length (result_types fn)]) @ nl)"
proof -
  let ?rs = "dispatched_results E fn w" and ?v = "awaited E fn w"
  let ?hdr = "''--- Running '' @ sq @ name fn @ sq @ '':'' @ nl"
  obtain pre post where ev:
    "fst (run_function E fn w) =
       pre @ [Outs ?hdr, OutsFlush, CallExecute fn, CallAwait (length (result_types fn))] @
       print_results E ?v fn ?rs @ [CallQuiesce, CallRestart, ResultsClear] @ post"
    and silent: "outs_text pre = []" "outs_text post = []"
    using run_function_events[OF assms, of E w] by blast
  have iff: "print_results E ?v fn ?rs = [] \<longleftrightarrow> result_types fn = []"
    by (simp add: print_results_def dispatched_results_def)
  have whole: "outs_text (fst (run_function E fn w)) = ?hdr @ outs_text (print_results E ?v fn ?rs)"
    by (simp add: ev outs_text_append silent)
  have empty: "\<exists>pre post.
           fst (run_function E fn w) =
             pre @ [Outs ?hdr, OutsFlush,
                    CallExecute fn, CallAwait 0, CallQuiesce, CallRestart, ResultsClear] @ post \<and>
           outs_text pre = [] \<and> outs_text post = []" if "result_types fn = []"
    using ev silent iff that by (intro exI[of _ pre] exI[of _ post]) simp
  have line: "outs_text (print_results E ?v fn ?rs) =
      sq @ name fn @ sq @ '' returned '' @
      comma_separated (map (\<lambda>i. print_result E ?v (result_types fn ! i) (?rs ! i))
           [0..<length (result_types fn)]) @ nl" if "result_types fn \<noteq> []"
    by (rule outs_text_print_results) (simp_all add: that)
  show ?thesis
  proof (intro conjI impI)
    show "print_results E ?v fn ?rs = [] \<longleftrightarrow> result_types fn = []" by (rule iff)
    show "\<exists>pre post.
           fst (run_function E fn w) =
             pre @ [Outs ?hdr, OutsFlush,
                    CallExecute fn, CallAwait 0, CallQuiesce, CallRestart, ResultsClear] @ post \<and>
           outs_text pre = [] \<and> outs_text post = []" if "result_types fn = []"
      by (rule empty[OF that])
    show "outs_text (fst (run_function E fn w)) = ?hdr" if "result_types fn = []"
      using whole iff that by simp
    show "outs_text (fst (run_function E fn w)) =
          ''--- Running '' @ sq @ name fn @ sq @ '':'' @ nl @
          sq @ name fn @ sq @ '' returned '' @
          comma_separated
            (map (\<lambda>i. print_result E ?v (result_types fn ! i) (?rs ! i))
               [0..<length (result_types fn)]) @ nl" if "result_types fn \<noteq> []"
      using whole line[OF that] by simp
  qed
qed


text \<open>
  C10 on the example runtime: \<open>fn_void\<close> declares no result, \<open>fn_cancel\<close> one result
  of type \<^verbatim>\<open>chain\<close>.
\<close>

theorem report_only_with_results_witness:
  "argument_types fn_void = [] \<and> name fn_void \<noteq> [] \<and> result_types fn_void = [] \<and>
   outs_text (fst (run_function (test_env []) fn_void test_world0)) =
     ''--- Running '' @ sq @ ''void'' @ sq @ '':'' @ nl \<and>
   argument_types fn_cancel = [] \<and> name fn_cancel \<noteq> [] \<and> result_types fn_cancel \<noteq> [] \<and>
   outs_text (fst (run_function (test_env []) fn_cancel test_world0)) =
     ''--- Running '' @ sq @ ''cancel'' @ sq @ '':'' @ nl @
     sq @ ''cancel'' @ sq @ '' returned chain value'' @ nl"
proof -
  have a: "argument_types fn_void = []" "name fn_void \<noteq> []" "result_types fn_void = []"
    and b: "argument_types fn_cancel = []" "name fn_cancel \<noteq> []" "result_types fn_cancel \<noteq> []"
    by (simp_all add: fn_void_def fn_cancel_def)
  have 1: "outs_text (fst (run_function (test_env []) fn_void test_world0)) =
     ''--- Running '' @ sq @ ''void'' @ sq @ '':'' @ nl"
    using report_only_with_results[OF a(1,2), of "test_env []" test_world0] a(3)
    by (simp add: fn_void_def)
  have 2: "outs_text (fst (run_function (test_env []) fn_cancel test_world0)) =
     ''--- Running '' @ sq @ ''cancel'' @ sq @ '':'' @ nl @
     sq @ ''cancel'' @ sq @ '' returned chain value'' @ nl"
    using report_only_with_results[OF b(1,2), of "test_env []" test_world0] b(3)
    by (simp add: fn_cancel_def print_result_def test_env_def dispatched_results_def
        test_Execute_def test_slots_def)
  from a b 1 2 show ?thesis by blast
qed

subsection \<open>Functions that are not run\<close>

text \<open>
  C3. A function in the list that declares an argument is never dispatched: its
  iteration writes the notice that it is not run because it has arguments, flushes, and
  goes on to the next function in the same state, with no read of the async-value count,
  no \<^verbatim>\<open>Execute\<close>, \<^verbatim>\<open>Await\<close>, report, \<^verbatim>\<open>Quiesce\<close>, \<^verbatim>\<open>Restart\<close> or leak check; and
  no run of the driver, whatever the configuration, executes such a function.
\<close>

theorem function_with_arguments_not_run:
  assumes "argument_types fn \<noteq> []"
  shows
    "run_function E fn w =
       ([Outs (''--- Not running '' @ sq @ name fn @ sq @ '' because it has arguments.'' @ nl),
         OutsFlush], Continue w) \<and>
     run_function_list E (fn # fns) w =
       ([Outs (''--- Not running '' @ sq @ name fn @ sq @ '' because it has arguments.'' @ nl),
         OutsFlush] @ fst (run_function_list E fns w),
        snd (run_function_list E fns w)) \<and>
     (\<forall>run_config w0. CallExecute fn \<notin> set (fst (RunBefExecutor E run_config w0)))"
proof (intro conjI allI)
  show skip: "run_function E fn w =
       ([Outs (''--- Not running '' @ sq @ name fn @ sq @ '' because it has arguments.'' @ nl),
         OutsFlush], Continue w)"
    by (rule run_function_with_arguments[OF assms])
  show "run_function_list E (fn # fns) w =
       ([Outs (''--- Not running '' @ sq @ name fn @ sq @ '' because it has arguments.'' @ nl),
         OutsFlush] @ fst (run_function_list E fns w),
        snd (run_function_list E fns w))"
    by (rule run_function_list_Cons_Continue[OF skip])
  show "CallExecute fn \<notin> set (fst (RunBefExecutor E run_config w0))" for run_config w0
    using executed_is_runnable[of fn E run_config w0] assms by (auto simp: runnable_def)
qed


text \<open>
  C3 on the example runtime: \<open>fn_args\<close> takes two arguments.
\<close>

theorem function_with_arguments_not_run_witness:
  "argument_types fn_args \<noteq> [] \<and>
   run_function_list (test_env []) [fn_args, fn_void] test_world0 =
     ([Outs (''--- Not running '' @ sq @ ''add'' @ sq @ '' because it has arguments.'' @ nl),
       OutsFlush] @ fst (run_function_list (test_env []) [fn_void] test_world0),
      snd (run_function_list (test_env []) [fn_void] test_world0)) \<and>
   CallExecute fn_args \<notin>
     set (fst (RunBefExecutor (test_env [fn_values, fn_args, fn_void]) (test_config [])
            test_world0))"
proof -
  have a: "argument_types fn_args \<noteq> []" by (simp add: fn_args_def)
  have n: "name fn_args = ''add''" by (simp add: fn_args_def)
  show ?thesis
    using function_with_arguments_not_run[OF a, of "test_env []" test_world0 "[fn_void]"]
      function_with_arguments_not_run[OF a, of "test_env [fn_values, fn_args, fn_void]"]
      a
    by (simp only: n) blast
qed


text \<open>
  C7. A function in the list with an empty name and no arguments is skipped silently:
  its iteration has no event at all (nothing written, no read of the async-value count,
  no dispatch, no leak check) and leaves the state as it is, so the loop behaves as if
  the function were not in the list; and no run of the driver executes such a function.
\<close>

theorem anonymous_function_skipped:
  assumes "name fn = []" and "argument_types fn = []"
  shows
    "run_function E fn w = ([], Continue w) \<and>
     (\<forall>before. run_function_list E (before @ fn # fns) w =
        run_function_list E (before @ fns) w) \<and>
     (\<forall>run_config w0. CallExecute fn \<notin> set (fst (RunBefExecutor E run_config w0)))"
proof (intro conjI allI)
  have skip: "run_function E fn v = ([], Continue v)" for v
    by (rule run_function_anonymous[OF assms(2,1)])
  show "run_function E fn w = ([], Continue w)" by (rule skip)
  have one: "run_function_list E (fn # fns) v = run_function_list E fns v" for v
    by (simp add: skip)
  show "run_function_list E (before @ fn # fns) w = run_function_list E (before @ fns) w"
    for before
    by (simp only: run_function_list_append[of E before] one)
  show "CallExecute fn \<notin> set (fst (RunBefExecutor E run_config w0))" for run_config w0
    using executed_is_runnable[of fn E run_config w0] assms by (auto simp: runnable_def)
qed


text \<open>
  C7 on the example runtime: \<open>fn_anon\<close> has no name and no arguments.
\<close>

theorem anonymous_function_skipped_witness:
  "name fn_anon = [] \<and> argument_types fn_anon = [] \<and>
   run_function (test_env []) fn_anon test_world0 = ([], Continue test_world0) \<and>
   run_function_list (test_env []) ([fn_void] @ fn_anon # [fn_values]) test_world0 =
     run_function_list (test_env []) ([fn_void] @ [fn_values]) test_world0"
proof -
  have a: "name fn_anon = []" "argument_types fn_anon = []" by (simp_all add: fn_anon_def)
  show ?thesis
    using anonymous_function_skipped[OF a, of "test_env []" test_world0 "[fn_values]"] a
    by blast
qed


subsection \<open>The allocator\<close>

text \<open>
  C9. The selector has a result for each of the four strategies and no failing branch:
  \<^verbatim>\<open>kMalloc\<close> gives the malloc allocator, \<^verbatim>\<open>kTestFixedSizeMalloc\<close> the fixed-size
  allocator, \<^verbatim>\<open>kProfiledMalloc\<close> the profiled allocator around a malloc allocator and
  \<^verbatim>\<open>kLeakCheckMalloc\<close> the leak-check allocator around a malloc allocator, four different
  allocators. Whatever the strategy, once the input file is open and the entry assertion
  holds the driver goes on past the selector, writing the line of its choice, and once
  the work queue exists and the second assertion holds it creates the runtime with the
  allocator the selector built.
\<close>

theorem allocator_for_every_strategy:
  "fst (choose_host_allocator kMalloc) = CreateMallocAllocator \<and>
   fst (choose_host_allocator kTestFixedSizeMalloc) = CreateFixedSizeAllocator \<and>
   fst (choose_host_allocator kProfiledMalloc) = CreateProfiledAllocator CreateMallocAllocator \<and>
   fst (choose_host_allocator kLeakCheckMalloc) = CreateLeakCheckAllocator CreateMallocAllocator \<and>
   inj (\<lambda>t. fst (choose_host_allocator t)) \<and>
   (\<forall>buffer. openInputFile E (input_filename run_config) = Inr buffer \<and>
      (NDEBUG E \<or> GetNumReferenceCountedObjects E w = 0) \<longrightarrow>
      (\<exists>rest. fst (RunBefExecutor E run_config w) =
         [Outs (snd (choose_host_allocator (host_allocator_type run_config))), OutsFlush] @ rest)) \<and>
   (\<forall>buffer work_queue. openInputFile E (input_filename run_config) = Inr buffer \<and>
      (NDEBUG E \<or> GetNumReferenceCountedObjects E w = 0) \<and>
      CreateWorkQueue E (work_queue_type run_config) = Some work_queue \<and>
      (NDEBUG E \<or> GetNumAsyncValueInstances E w = 0) \<longrightarrow>
      (\<exists>rest. fst (RunBefExecutor E run_config w) =
         [Outs (snd (choose_host_allocator (host_allocator_type run_config))), OutsFlush,
          Outs (''Choosing '' @ work_queue @ '' work queue.'' @ nl), OutsFlush,
          CallCreateCoreRuntime (fst (choose_host_allocator (host_allocator_type run_config)))
            work_queue (devices run_config)] @ rest))"
proof -
  have inj: "inj (\<lambda>t. fst (choose_host_allocator t))"
  proof (rule injI)
    fix s t assume "fst (choose_host_allocator s) = fst (choose_host_allocator t)"
    then show "s = t" by (cases s; cases t) simp_all
  qed
  have trace: "fst (RunBefExecutor E run_config w) =
      fst (startup E run_config w) @
      (case snd (startup E run_config w) of Inl ended \<Rightarrow> []
       | Inr (buffer, w2) \<Rightarrow> fst (run_bef E run_config buffer w2))"
    by (simp add: RunBefExecutor_def split: prod.split sum.split option.split)
  have first: "\<exists>rest. fst (startup E run_config w) =
         [Outs (snd (choose_host_allocator (host_allocator_type run_config))), OutsFlush] @ rest"
    if "openInputFile E (input_filename run_config) = Inr buffer"
       "NDEBUG E \<or> GetNumReferenceCountedObjects E w = 0" for buffer
    using that
    by (auto simp: startup_def Let_def split: prod.split option.split sum.split)
  have second: "\<exists>rest. fst (startup E run_config w) =
         [Outs (snd (choose_host_allocator (host_allocator_type run_config))), OutsFlush,
          Outs (''Choosing '' @ work_queue @ '' work queue.'' @ nl), OutsFlush,
          CallCreateCoreRuntime (fst (choose_host_allocator (host_allocator_type run_config)))
            work_queue (devices run_config)] @ rest"
    if "openInputFile E (input_filename run_config) = Inr buffer"
       "NDEBUG E \<or> GetNumReferenceCountedObjects E w = 0"
       "CreateWorkQueue E (work_queue_type run_config) = Some work_queue"
       "NDEBUG E \<or> GetNumAsyncValueInstances E w = 0" for buffer work_queue
    using that
    by (auto simp: startup_def Let_def split: prod.split option.split sum.split)
  show ?thesis
    apply (intro conjI allI impI inj)
         apply simp_all
    subgoal for buffer using first[of buffer] by (auto simp: trace)
    subgoal for buffer work_queue using second[of buffer work_queue] by (auto simp: trace)
    done
qed

text \<open>
  C9 on the example runtime, with the strategy \<^verbatim>\<open>kLeakCheckMalloc\<close>.
\<close>

theorem allocator_for_every_strategy_witness:
  "openInputFile (test_env [fn_void]) (input_filename (test_config [])) = Inr [] \<and>
   GetNumReferenceCountedObjects (test_env [fn_void]) test_world0 = 0 \<and>
   CreateWorkQueue (test_env [fn_void]) (work_queue_type (test_config [])) =
     Some ''single-threaded'' \<and>
   GetNumAsyncValueInstances (test_env [fn_void]) test_world0 = 0 \<and>
   (\<exists>rest. fst (RunBefExecutor (test_env [fn_void]) (test_config []) test_world0) =
      [Outs (''Choosing memory leak check allocator.'' @ nl), OutsFlush,
       Outs (''Choosing single-threaded work queue.'' @ nl), OutsFlush,
       CallCreateCoreRuntime (CreateLeakCheckAllocator CreateMallocAllocator)
         ''single-threaded'' [''cpu'']] @ rest)"
proof -
  have pre:
    "openInputFile (test_env [fn_void]) (input_filename (test_config [])) = Inr []"
    "GetNumReferenceCountedObjects (test_env [fn_void]) test_world0 = 0"
    "CreateWorkQueue (test_env [fn_void]) (work_queue_type (test_config [])) =
       Some ''single-threaded''"
    "GetNumAsyncValueInstances (test_env [fn_void]) test_world0 = 0"
    by (simp_all add: test_env_def test_config_def test_world0_def)
  have cfg: "host_allocator_type (test_config []) = kLeakCheckMalloc"
    "devices (test_config []) = [''cpu'']"
    by (simp_all add: test_config_def)
  from allocator_for_every_strategy[of "test_env [fn_void]" "test_config []" test_world0] pre
  have "\<exists>rest. fst (RunBefExecutor (test_env [fn_void]) (test_config []) test_world0) =
         [Outs (snd (choose_host_allocator (host_allocator_type (test_config [])))), OutsFlush,
          Outs (''Choosing '' @ ''single-threaded'' @ '' work queue.'' @ nl), OutsFlush,
          CallCreateCoreRuntime (fst (choose_host_allocator (host_allocator_type (test_config []))))
            ''single-threaded'' (devices (test_config []))] @ rest"
    by blast
  then have "\<exists>rest. fst (RunBefExecutor (test_env [fn_void]) (test_config []) test_world0) =
      [Outs (''Choosing memory leak check allocator.'' @ nl), OutsFlush,
       Outs (''Choosing single-threaded work queue.'' @ nl), OutsFlush,
       CallCreateCoreRuntime (CreateLeakCheckAllocator CreateMallocAllocator)
         ''single-threaded'' [''cpu'']] @ rest"
    by (simp add: cfg)
  with pre show ?thesis by blast
qed

subsection \<open>The leak check\<close>

text \<open>
  C2. With allocation tracking on, for a function that is run the driver reads the
  count of live async values before the \<^verbatim>\<open>--- Running\<close> line and again after
  \<^verbatim>\<open>results.clear()\<close>. If the two counts differ, the iteration ends with the leak
  message and \<^verbatim>\<open>abort()\<close>: the loop runs no further function and the process ends
  aborted, with the message as its last event, instead of returning a value. If they are
  equal, the loop goes on with the next function in the state after the release.
\<close>

theorem leak_check_aborts:
  assumes "AsyncValueAllocationTrackingEnabled E"
    and "argument_types fn = []" and "name fn \<noteq> []"
  shows
    "(GetNumAsyncValueInstances E (released E fn w) \<noteq> GetNumAsyncValueInstances E w \<longrightarrow>
        run_function E fn w =
          ([ReadNumAsyncValues (GetNumAsyncValueInstances E w)] @ iteration_events E fn w @
           [ReadNumAsyncValues (GetNumAsyncValueInstances E (released E fn w)),
            Errs (leak_message E fn (GetNumAsyncValueInstances E w)
                    (GetNumAsyncValueInstances E (released E fn w)))],
           LeakAbort) \<and>
        run_function_list E (fn # fns) w = run_function E fn w \<and>
        (\<forall>run_config w0 evs0 buffer v bef v1 before evs1.
            startup E run_config w0 = (evs0, Inr (buffer, v)) \<and>
            BEFFile_Open E buffer v = (Some bef, v1) \<and>
            select_functions bef (functions_requested run_config) = Inr (before @ fn # fns) \<and>
            run_function_list E before v1 = (evs1, Continue w) \<longrightarrow>
            RunBefExecutor E run_config w0 =
              (evs0 @ CallBEFFileOpen # evs1 @ fst (run_function E fn w), Aborted))) \<and>
     (GetNumAsyncValueInstances E (released E fn w) = GetNumAsyncValueInstances E w \<longrightarrow>
        run_function E fn w =
          ([ReadNumAsyncValues (GetNumAsyncValueInstances E w)] @ iteration_events E fn w @
           [ReadNumAsyncValues (GetNumAsyncValueInstances E (released E fn w))],
           Continue (released E fn w)) \<and>
        run_function_list E (fn # fns) w =
          (fst (run_function E fn w) @ fst (run_function_list E fns (released E fn w)),
           snd (run_function_list E fns (released E fn w))))"
proof (intro conjI impI allI)
  note rf = run_function_tracked[OF assms, of w]
  {
    assume differ:
      "GetNumAsyncValueInstances E (released E fn w) \<noteq> GetNumAsyncValueInstances E w"
    show leak: "run_function E fn w =
          ([ReadNumAsyncValues (GetNumAsyncValueInstances E w)] @ iteration_events E fn w @
           [ReadNumAsyncValues (GetNumAsyncValueInstances E (released E fn w)),
            Errs (leak_message E fn (GetNumAsyncValueInstances E w)
                    (GetNumAsyncValueInstances E (released E fn w)))],
           LeakAbort)"
      using differ by (simp add: rf)
    show stop: "run_function_list E (fn # fns) w = run_function E fn w"
      by (simp add: leak)
    fix run_config w0 evs0 buffer v bef v1 before evs1
    assume run: "startup E run_config w0 = (evs0, Inr (buffer, v)) \<and>
            BEFFile_Open E buffer v = (Some bef, v1) \<and>
            select_functions bef (functions_requested run_config) = Inr (before @ fn # fns) \<and>
            run_function_list E before v1 = (evs1, Continue w)"
    have "run_function_list E (before @ fn # fns) v1 =
        (evs1 @ fst (run_function E fn w), LeakAbort)"
      using run by (simp add: run_function_list_append[of E before] stop leak)
    with run show "RunBefExecutor E run_config w0 =
              (evs0 @ CallBEFFileOpen # evs1 @ fst (run_function E fn w), Aborted)"
      by (intro RunBefExecutor_leak[of E run_config w0 evs0 buffer v bef v1 "before @ fn # fns"])
         simp_all
  }
  {
    assume same:
      "GetNumAsyncValueInstances E (released E fn w) = GetNumAsyncValueInstances E w"
    show ok: "run_function E fn w =
          ([ReadNumAsyncValues (GetNumAsyncValueInstances E w)] @ iteration_events E fn w @
           [ReadNumAsyncValues (GetNumAsyncValueInstances E (released E fn w))],
           Continue (released E fn w))"
      using same by (simp add: rf)
    show "run_function_list E (fn # fns) w =
          (fst (run_function E fn w) @ fst (run_function_list E fns (released E fn w)),
           snd (run_function_list E fns (released E fn w)))"
      using run_function_list_Cons_Continue[OF ok] by (simp add: ok)
  }
qed

text \<open>
  C2 on the example runtime: \<open>fn_leak\<close> leaves one async value behind and the run is
  aborted, \<open>fn_void\<close> leaves none.
\<close>

theorem leak_check_aborts_witness:
  "AsyncValueAllocationTrackingEnabled (test_env [fn_leak, fn_void]) \<and>
   argument_types fn_leak = [] \<and> name fn_leak \<noteq> [] \<and>
   GetNumAsyncValueInstances (test_env [fn_leak, fn_void])
     (released (test_env [fn_leak, fn_void]) fn_leak (test_world0\<lparr>live_rc_objects := 1\<rparr>)) \<noteq>
   GetNumAsyncValueInstances (test_env [fn_leak, fn_void]) (test_world0\<lparr>live_rc_objects := 1\<rparr>) \<and>
   snd (RunBefExecutor (test_env [fn_leak, fn_void]) (test_config []) test_world0) = Aborted \<and>
   argument_types fn_void = [] \<and> name fn_void \<noteq> [] \<and>
   GetNumAsyncValueInstances (test_env [fn_leak, fn_void])
     (released (test_env [fn_leak, fn_void]) fn_void test_world0) =
   GetNumAsyncValueInstances (test_env [fn_leak, fn_void]) test_world0 \<and>
   snd (run_function (test_env [fn_leak, fn_void]) fn_void test_world0) =
     Continue (released (test_env [fn_leak, fn_void]) fn_void test_world0)"
proof -
  let ?E = "test_env [fn_leak, fn_void]" and ?v = "test_world0\<lparr>live_rc_objects := 1\<rparr>"
  have tr: "AsyncValueAllocationTrackingEnabled ?E" by (simp add: test_env_def)
  have l: "argument_types fn_leak = []" "name fn_leak \<noteq> []"
    and v: "argument_types fn_void = []" "name fn_void \<noteq> []"
    by (simp_all add: fn_leak_def fn_void_def)
  have differ: "GetNumAsyncValueInstances ?E (released ?E fn_leak ?v) \<noteq>
      GetNumAsyncValueInstances ?E ?v"
    by (simp add: released_def awaited_def dispatched_results_def test_env_def test_Execute_def
        fn_leak_def test_world0_def)
  have same: "GetNumAsyncValueInstances ?E (released ?E fn_void test_world0) =
      GetNumAsyncValueInstances ?E test_world0"
    by (simp add: released_def awaited_def dispatched_results_def test_env_def test_Execute_def
        fn_void_def test_world0_def)
  have st: "startup ?E (test_config []) test_world0 =
      (fst (startup ?E (test_config []) test_world0), Inr ([], ?v))"
    using test_startup[of "[fn_leak, fn_void]" "[]"] by (simp add: prod_eq_iff)
  have sel: "select_functions (test_bef [fn_leak, fn_void]) (functions_requested (test_config [])) =
      Inr ([] @ fn_leak # [fn_void])"
    by (simp add: select_functions_def test_config_def test_bef_def)
  have lp: "run_function_list ?E [] ?v = ([], Continue ?v)" by simp
  have "\<forall>run_config w0 evs0 buffer v bef v1 before evs1.
            startup ?E run_config w0 = (evs0, Inr (buffer, v)) \<and>
            BEFFile_Open ?E buffer v = (Some bef, v1) \<and>
            select_functions bef (functions_requested run_config) =
              Inr (before @ fn_leak # [fn_void]) \<and>
            run_function_list ?E before v1 = (evs1, Continue ?v) \<longrightarrow>
            RunBefExecutor ?E run_config w0 =
              (evs0 @ CallBEFFileOpen # evs1 @ fst (run_function ?E fn_leak ?v), Aborted)"
    using leak_check_aborts[OF tr l, of ?v "[fn_void]"] differ by blast
  then have "RunBefExecutor ?E (test_config []) test_world0 =
      (fst (startup ?E (test_config []) test_world0) @ CallBEFFileOpen # [] @
         fst (run_function ?E fn_leak ?v), Aborted)"
    using st test_BEFFile_Open[of "[fn_leak, fn_void]" ?v] sel lp by blast
  then have ab: "snd (RunBefExecutor ?E (test_config []) test_world0) = Aborted" by simp
  have co: "snd (run_function ?E fn_void test_world0) = Continue (released ?E fn_void test_world0)"
    using leak_check_aborts[OF tr v, of test_world0 "[]"] same by simp
  from tr l v differ same ab co show ?thesis by blast
qed

subsection \<open>The selection of the functions\<close>

text \<open>
  C4. When a requested name is not a function of the opened BEF file, the driver
  reports the first such name on \<^verbatim>\<open>llvm::errs()\<close> and returns 1 without executing any
  function, the requested names before it included: after the events up to
  \<^verbatim>\<open>BEFFile::Open\<close> the run has only the message and the destruction of the BEF file.
  The value 1 is what the process ends with when assertions are compiled out or both
  counters read zero at exit; otherwise it ends in the guard's assertion, and never by
  returning 0.
\<close>

theorem unresolved_name_runs_nothing:
  assumes "\<exists>n\<in>set (functions_requested run_config). GetFunction bef n = None"
    and "startup E run_config w = (evs0, Inr (buffer, v))"
    and "BEFFile_Open E buffer v = (Some bef, v1)"
  shows
    "\<exists>before n after.
       functions_requested run_config = before @ n # after \<and>
       (\<forall>m\<in>set before. GetFunction bef m \<noteq> None) \<and> GetFunction bef n = None \<and>
       select_functions bef (functions_requested run_config) = Inl n \<and>
       RunBefExecutor E run_config w =
         (evs0 @
          [CallBEFFileOpen,
           Errs (program_name run_config @ '': couldn't find function '' @ n @ nl), BefReset],
          async_value_guard E 1 (destroy_core_rt E (bef_reset E v1))) \<and>
       (\<forall>fn. CallExecute fn \<notin> set (fst (RunBefExecutor E run_config w))) \<and>
       snd (RunBefExecutor E run_config w) \<noteq> Returned 0 \<and>
       (NDEBUG E \<or>
        GetNumAsyncValueInstances E (destroy_core_rt E (bef_reset E v1)) = 0 \<and>
        GetNumReferenceCountedObjects E (destroy_core_rt E (bef_reset E v1)) = 0 \<longrightarrow>
        snd (RunBefExecutor E run_config w) = Returned 1)"
proof -
  from assms(1) have ne: "functions_requested run_config \<noteq> []" by auto
  obtain before n after where first:
    "functions_requested run_config = before @ n # after"
    "\<forall>m\<in>set before. GetFunction bef m \<noteq> None" "GetFunction bef n = None"
    "resolve_functions bef (functions_requested run_config) [] = Inl n"
    using resolve_functions_first_unresolved[OF assms(1), of "[]"] by blast
  have sel: "select_functions bef (functions_requested run_config) = Inl n"
    using ne first(4) by (simp add: select_functions_def)
  have run: "RunBefExecutor E run_config w =
         (evs0 @
          [CallBEFFileOpen,
           Errs (program_name run_config @ '': couldn't find function '' @ n @ nl), BefReset],
          async_value_guard E 1 (destroy_core_rt E (bef_reset E v1)))"
    by (rule RunBefExecutor_returned[OF assms(2) run_bef_not_found[OF assms(3) sel]])
  have "host_calls (fst (RunBefExecutor E run_config w)) = []"
    using host_calls_startup[OF assms(2)] by (simp add: run host_calls_def)
  then have none: "\<forall>fn. CallExecute fn \<notin> set (fst (RunBefExecutor E run_config w))"
    by (blast dest: no_host_calls_no_Execute)
  have nz: "snd (RunBefExecutor E run_config w) \<noteq> Returned 0"
    using async_value_guard_cases(1)[of E 1 "destroy_core_rt E (bef_reset E v1)"]
    by (auto simp: run)
  have one: "snd (RunBefExecutor E run_config w) = Returned 1"
    if "NDEBUG E \<or>
        GetNumAsyncValueInstances E (destroy_core_rt E (bef_reset E v1)) = 0 \<and>
        GetNumReferenceCountedObjects E (destroy_core_rt E (bef_reset E v1)) = 0"
    using async_value_guard_cases(2)[OF that, of 1] by (simp add: run)
  from first(1,2,3) sel run none nz one show ?thesis by blast
qed

text \<open>
  C4 on the example runtime: the program has \<^verbatim>\<open>name\<close> and \<^verbatim>\<open>void\<close>, and
  \<^verbatim>\<open>void\<close>, \<^verbatim>\<open>nope\<close> and \<^verbatim>\<open>name\<close> are requested.
\<close>

theorem unresolved_name_runs_nothing_witness:
  "(\<exists>n\<in>set (functions_requested (test_config [''void'', ''nope'', ''name''])).
      GetFunction (test_bef [fn_values, fn_void]) n = None) \<and>
   startup (test_env [fn_values, fn_void]) (test_config [''void'', ''nope'', ''name''])
     test_world0 =
     (test_startup_events, Inr ([], test_world0\<lparr>live_rc_objects := 1\<rparr>)) \<and>
   BEFFile_Open (test_env [fn_values, fn_void]) [] (test_world0\<lparr>live_rc_objects := 1\<rparr>) =
     (Some (test_bef [fn_values, fn_void]), test_world0\<lparr>live_rc_objects := 1\<rparr>) \<and>
   RunBefExecutor (test_env [fn_values, fn_void]) (test_config [''void'', ''nope'', ''name''])
     test_world0 =
     (test_startup_events @
      [CallBEFFileOpen, Errs (''bef_executor: couldn't find function nope'' @ nl), BefReset],
      Returned 1)"
proof -
  let ?E = "test_env [fn_values, fn_void]" and ?v = "test_world0\<lparr>live_rc_objects := 1\<rparr>"
  let ?cfg = "test_config [''void'', ''nope'', ''name'']"
  let ?bef = "test_bef [fn_values, fn_void]"
  have names: "functions_requested ?cfg = [''void'', ''nope'', ''name'']"
    and pn: "program_name ?cfg = ''bef_executor''"
    by (simp_all add: test_config_def)
  have "GetFunction ?bef ''nope'' = None"
    by (simp add: test_bef_def fn_values_def fn_void_def)
  then have un: "\<exists>n\<in>set (functions_requested ?cfg). GetFunction ?bef n = None"
    by (simp add: names)
  have sel: "select_functions ?bef (functions_requested ?cfg) = Inl ''nope''"
    by (simp add: names select_functions_def test_bef_def fn_values_def fn_void_def)
  have guard: "async_value_guard ?E 1 (destroy_core_rt ?E (bef_reset ?E ?v)) = Returned 1"
    by (simp add: async_value_guard_def test_env_def test_world0_def)
  obtain n where
    "select_functions ?bef (functions_requested ?cfg) = Inl n"
    "RunBefExecutor ?E ?cfg test_world0 =
       (test_startup_events @
        [CallBEFFileOpen, Errs (program_name ?cfg @ '': couldn't find function '' @ n @ nl),
         BefReset],
        async_value_guard ?E 1 (destroy_core_rt ?E (bef_reset ?E ?v)))"
    using unresolved_name_runs_nothing[OF un test_startup_full test_BEFFile_Open]
    by blast
  with sel guard pn have "RunBefExecutor ?E ?cfg test_world0 =
     (test_startup_events @
      [CallBEFFileOpen, Errs (''bef_executor: couldn't find function nope'' @ nl), BefReset],
      Returned 1)"
    by simp
  with un test_startup_full[of "[fn_values, fn_void]"] test_BEFFile_Open[of "[fn_values, fn_void]"]
  show ?thesis by blast
qed

subsection \<open>The exit status\<close>

text \<open>
  C5, as the code has it. Once the driver is about to open the BEF file: if
  \<^verbatim>\<open>BEFFile::Open\<close> returns null, the next event is the call of the verifier, no
  function is run, and the driver returns 1 if the verifier failed and 0 if not; when all
  functions have run, it destroys the BEF file, calls the verifier and returns by the
  same rule. After the \<^verbatim>\<open>return\<close> the runtime is destroyed and the scope-exit guard
  runs: the value returned is what the process ends with when assertions are compiled out
  or both counters read zero at exit, and with assertions compiled in and a counter that
  is not zero the process ends in the failed assertion instead, whatever the verifier
  found.
\<close>

theorem exit_status_is_verifier_flag:
  assumes "startup E run_config w = (evs0, Inr (buffer, v))"
  shows
    "(\<forall>v1. BEFFile_Open E buffer v = (None, v1) \<longrightarrow>
        RunBefExecutor E run_config w =
          (evs0 @ [CallBEFFileOpen, CallVerify],
           async_value_guard E (bool_to_int (verify E v1)) (destroy_core_rt E v1)) \<and>
        (\<forall>fn. CallExecute fn \<notin> set (fst (RunBefExecutor E run_config w)))) \<and>
     (\<forall>bef v1 function_list evs v2.
        BEFFile_Open E buffer v = (Some bef, v1) \<and>
        select_functions bef (functions_requested run_config) = Inr function_list \<and>
        run_function_list E function_list v1 = (evs, Continue v2) \<longrightarrow>
        RunBefExecutor E run_config w =
          (evs0 @ CallBEFFileOpen # evs @ [BefReset, CallVerify],
           async_value_guard E (bool_to_int (verify E (bef_reset E v2)))
             (destroy_core_rt E (bef_reset E v2)))) \<and>
     (\<forall>fn. CallExecute fn \<notin> set evs0) \<and>
     (\<forall>flag u.
        NDEBUG E \<or>
        GetNumAsyncValueInstances E u = 0 \<and> GetNumReferenceCountedObjects E u = 0 \<longrightarrow>
        async_value_guard E (bool_to_int flag) u = Returned (bool_to_int flag)) \<and>
     (\<forall>flag u.
        \<not> NDEBUG E \<and>
        (GetNumAsyncValueInstances E u \<noteq> 0 \<or> GetNumReferenceCountedObjects E u \<noteq> 0) \<longrightarrow>
        async_value_guard E (bool_to_int flag) u = AssertionFailed) \<and>
     (\<forall>flag. bool_to_int flag \<noteq> 0 \<longleftrightarrow> flag)"
proof (intro conjI allI impI)
  have quiet: "CallExecute fn \<notin> set evs0" for fn
    by (rule no_host_calls_no_Execute[OF host_calls_startup[OF assms]])
  show null: "RunBefExecutor E run_config w =
          (evs0 @ [CallBEFFileOpen, CallVerify],
           async_value_guard E (bool_to_int (verify E v1)) (destroy_core_rt E v1))"
    if "BEFFile_Open E buffer v = (None, v1)" for v1
    by (rule RunBefExecutor_returned[OF assms run_bef_null[OF that]])
  show "CallExecute fn \<notin> set (fst (RunBefExecutor E run_config w))"
    if "BEFFile_Open E buffer v = (None, v1)" for v1 fn
    using quiet[of fn] by (simp add: null[OF that])
  show "RunBefExecutor E run_config w =
          (evs0 @ CallBEFFileOpen # evs @ [BefReset, CallVerify],
           async_value_guard E (bool_to_int (verify E (bef_reset E v2)))
             (destroy_core_rt E (bef_reset E v2)))"
    if "BEFFile_Open E buffer v = (Some bef, v1) \<and>
        select_functions bef (functions_requested run_config) = Inr function_list \<and>
        run_function_list E function_list v1 = (evs, Continue v2)"
    for bef v1 function_list evs v2
    using RunBefExecutor_completed[OF assms, of bef v1 function_list evs v2] that by blast
  show "CallExecute fn \<notin> set evs0" for fn
    by (rule quiet)
  show "async_value_guard E (bool_to_int flag) u = Returned (bool_to_int flag)"
    if "NDEBUG E \<or>
        GetNumAsyncValueInstances E u = 0 \<and> GetNumReferenceCountedObjects E u = 0"
    for flag u
    by (rule async_value_guard_cases(2)[OF that])
  show "async_value_guard E (bool_to_int flag) u = AssertionFailed"
    if "\<not> NDEBUG E \<and>
        (GetNumAsyncValueInstances E u \<noteq> 0 \<or> GetNumReferenceCountedObjects E u \<noteq> 0)"
    for flag u
    by (rule async_value_guard_fails[OF that])
  show "bool_to_int flag \<noteq> 0 \<longleftrightarrow> flag" for flag
    by (simp add: bool_to_int_def)
qed

text \<open>
  C5 on the example runtime: the file \<^verbatim>\<open>bad.mlir\<close> does not parse and the verifier
  fails; the file \<^verbatim>\<open>test.mlir\<close> with the one function \<open>fn_void\<close> runs and verifies.
\<close>

theorem exit_status_is_verifier_flag_witness:
  "startup (test_env [fn_void]) ((test_config [])\<lparr>input_filename := ''bad.mlir''\<rparr>) test_world0 =
     (test_startup_events, Inr ([0], test_world0\<lparr>live_rc_objects := 1\<rparr>)) \<and>
   BEFFile_Open (test_env [fn_void]) [0] (test_world0\<lparr>live_rc_objects := 1\<rparr>) =
     (None, test_world0\<lparr>live_rc_objects := 1, diagnostics_mismatch := True\<rparr>) \<and>
   RunBefExecutor (test_env [fn_void]) ((test_config [])\<lparr>input_filename := ''bad.mlir''\<rparr>)
     test_world0 =
     (test_startup_events @ [CallBEFFileOpen, CallVerify], Returned 1) \<and>
   startup (test_env [fn_void]) (test_config []) test_world0 =
     (test_startup_events, Inr ([], test_world0\<lparr>live_rc_objects := 1\<rparr>)) \<and>
   BEFFile_Open (test_env [fn_void]) [] (test_world0\<lparr>live_rc_objects := 1\<rparr>) =
     (Some (test_bef [fn_void]), test_world0\<lparr>live_rc_objects := 1\<rparr>) \<and>
   select_functions (test_bef [fn_void]) (functions_requested (test_config [])) =
     Inr [fn_void] \<and>
   snd (run_function_list (test_env [fn_void]) [fn_void] (test_world0\<lparr>live_rc_objects := 1\<rparr>)) =
     Continue (test_world0\<lparr>live_rc_objects := 1\<rparr>) \<and>
   snd (RunBefExecutor (test_env [fn_void]) (test_config []) test_world0) = Returned 0"
proof -
  let ?E = "test_env [fn_void]" and ?v = "test_world0\<lparr>live_rc_objects := 1\<rparr>"
  let ?bad = "(test_config [])\<lparr>input_filename := ''bad.mlir''\<rparr>"
  have op: "BEFFile_Open ?E [0] ?v = (None, ?v\<lparr>diagnostics_mismatch := True\<rparr>)"
    by (simp add: test_env_def)
  have g1: "async_value_guard ?E (bool_to_int (verify ?E (?v\<lparr>diagnostics_mismatch := True\<rparr>)))
      (destroy_core_rt ?E (?v\<lparr>diagnostics_mismatch := True\<rparr>)) = Returned 1"
    by (simp add: async_value_guard_def test_env_def test_world0_def bool_to_int_def)
  have bad: "RunBefExecutor ?E ?bad test_world0 =
     (test_startup_events @ [CallBEFFileOpen, CallVerify], Returned 1)"
    using exit_status_is_verifier_flag[OF test_startup_bad[of "[fn_void]" "[]"]] op g1
    by simp
  have sel: "select_functions (test_bef [fn_void]) (functions_requested (test_config [])) =
     Inr [fn_void]"
    by (simp add: select_functions_def test_config_def test_bef_def)
  have lp: "snd (run_function_list ?E [fn_void] ?v) = Continue ?v"
    by (simp add: run_function_def test_env_def test_Execute_def fn_void_def test_world0_def
        Let_def split: prod.split)
  then have lp': "run_function_list ?E [fn_void] ?v =
      (fst (run_function_list ?E [fn_void] ?v), Continue ?v)"
    by (simp add: prod_eq_iff)
  have g0: "async_value_guard ?E (bool_to_int (verify ?E (bef_reset ?E ?v)))
      (destroy_core_rt ?E (bef_reset ?E ?v)) = Returned 0"
    by (simp add: async_value_guard_def test_env_def test_world0_def bool_to_int_def)
  have "RunBefExecutor ?E (test_config []) test_world0 =
          (test_startup_events @ CallBEFFileOpen #
             fst (run_function_list ?E [fn_void] ?v) @ [BefReset, CallVerify],
           async_value_guard ?E (bool_to_int (verify ?E (bef_reset ?E ?v)))
             (destroy_core_rt ?E (bef_reset ?E ?v)))"
    using exit_status_is_verifier_flag[OF test_startup_full[of "[fn_void]" "[]"]]
      test_BEFFile_Open[of "[fn_void]" ?v] sel lp'
    by blast
  then have ok: "snd (RunBefExecutor ?E (test_config []) test_world0) = Returned 0"
    by (simp add: g0)
  from test_startup_bad[of "[fn_void]" "[]"] op bad test_startup_full[of "[fn_void]" "[]"]
    test_BEFFile_Open[of "[fn_void]" ?v] sel lp ok
  show ?thesis by simp
qed

text \<open>
  C5 as the claim has it fails on a runtime that leaves a reference-counted object alive
  when it is destroyed, with assertions compiled in: the verifier does not fail, and the
  process ends in the assertion of the guard, after all functions have run as well as
  after a BEF file that does not parse.
\<close>

theorem exit_status_counterexample:
  "\<not> verify (leaky_env [fn_void])
       (bef_reset (leaky_env [fn_void]) (test_world0\<lparr>live_rc_objects := 1\<rparr>)) \<and>
   snd (RunBefExecutor (leaky_env [fn_void]) (test_config []) test_world0) =
     AssertionFailed \<and>
   BEFFile_Open (leaky_env [fn_void]) [1] (test_world0\<lparr>live_rc_objects := 1\<rparr>) =
     (None, test_world0\<lparr>live_rc_objects := 1\<rparr>) \<and>
   \<not> verify (leaky_env [fn_void]) (test_world0\<lparr>live_rc_objects := 1\<rparr>) \<and>
   snd (RunBefExecutor (leaky_env [fn_void])
          ((test_config [])\<lparr>input_filename := ''expected.mlir''\<rparr>) test_world0) =
     AssertionFailed"
proof -
  let ?E = "leaky_env [fn_void]" and ?v = "test_world0\<lparr>live_rc_objects := 1\<rparr>"
  have passed: "\<not> verify ?E (bef_reset ?E ?v)" "\<not> verify ?E ?v"
    by (simp_all add: leaky_env_def test_env_def test_world0_def)
  have opened: "BEFFile_Open ?E [] ?v = (Some (test_bef [fn_void]), ?v)"
    and null: "BEFFile_Open ?E [1] ?v = (None, ?v)"
    by (simp_all add: leaky_env_def test_env_def)
  have sel: "select_functions (test_bef [fn_void]) (functions_requested (test_config [])) =
     Inr [fn_void]"
    by (simp add: select_functions_def test_config_def test_bef_def)
  have "snd (run_function_list ?E [fn_void] ?v) = Continue ?v"
    by (simp add: run_function_def leaky_env_def test_env_def test_Execute_def fn_void_def
        test_world0_def Let_def split: prod.split)
  then have lp: "run_function_list ?E [fn_void] ?v =
      (fst (run_function_list ?E [fn_void] ?v), Continue ?v)"
    by (simp add: prod_eq_iff)
  have guard: "async_value_guard ?E r (destroy_core_rt ?E (bef_reset ?E ?v)) = AssertionFailed"
    "async_value_guard ?E r (destroy_core_rt ?E ?v) = AssertionFailed" for r
    by (simp_all add: async_value_guard_def leaky_env_def test_env_def test_world0_def)
  have 1: "snd (RunBefExecutor ?E (test_config []) test_world0) = AssertionFailed"
    by (simp add: RunBefExecutor_completed[OF leaky_startup_full opened sel lp] guard)
  have 2: "snd (RunBefExecutor ?E ((test_config [])\<lparr>input_filename := ''expected.mlir''\<rparr>)
      test_world0) = AssertionFailed"
    by (simp add: RunBefExecutor_returned[OF leaky_startup_expected run_bef_null[OF null]] guard)
  from passed null 1 2 show ?thesis by blast
qed

subsection \<open>One function after another\<close>

text \<open>
  C6. The calls on the host in the loop are, function by function, \<^verbatim>\<open>Execute\<close>,
  \<^verbatim>\<open>Await\<close> on all the result slots, \<^verbatim>\<open>Quiesce\<close>, \<^verbatim>\<open>Restart\<close> and
  \<^verbatim>\<open>results.clear()\<close>, for the functions that are run in the order of the list (all of
  them unless a leak aborts the loop), and the same holds of every run of the driver; so
  between two consecutive \<^verbatim>\<open>Execute\<close> calls lie the \<^verbatim>\<open>Await\<close>, \<^verbatim>\<open>Quiesce\<close>,
  \<^verbatim>\<open>Restart\<close> and release of the first function. The state in which the next function
  is dispatched is the state after \<^verbatim>\<open>Restart\<close> and the release.
\<close>

theorem functions_run_one_after_another:
  "(\<exists>k. host_calls (fst (run_function_list E fns w)) =
          concat (map calls_of (take k (filter runnable fns))) \<and>
        (snd (run_function_list E fns w) \<noteq> LeakAbort \<longrightarrow>
           k = length (filter runnable fns))) \<and>
   (\<exists>fs. host_calls (fst (RunBefExecutor E run_config w0)) = concat (map calls_of fs) \<and>
         (\<forall>fn\<in>set fs. runnable fn)) \<and>
   (\<forall>fn v. runnable fn \<and> snd (run_function E fn v) \<noteq> LeakAbort \<longrightarrow>
      snd (run_function E fn v) =
        Continue (results_clear E (dispatched_results E fn v)
                   (Restart E (Quiesce E
                      (Await E (dispatched_results E fn v) (snd (Execute E fn v)))))) \<and>
      (\<forall>rest. run_function_list E (fn # rest) v =
         (fst (run_function E fn v) @
            fst (run_function_list E rest (released E fn v)),
          snd (run_function_list E rest (released E fn v)))))"
proof (intro conjI allI impI)
  show "\<exists>k. host_calls (fst (run_function_list E fns w)) =
          concat (map calls_of (take k (filter runnable fns))) \<and>
        (snd (run_function_list E fns w) \<noteq> LeakAbort \<longrightarrow>
           k = length (filter runnable fns))"
    by (rule host_calls_run_function_list)
  show "\<exists>fs. host_calls (fst (RunBefExecutor E run_config w0)) = concat (map calls_of fs) \<and>
         (\<forall>fn\<in>set fs. runnable fn)"
    by (rule host_calls_RunBefExecutor)
  fix fn v
  assume a: "runnable fn \<and> snd (run_function E fn v) \<noteq> LeakAbort"
  then have st: "snd (run_function E fn v) = Continue (released E fn v)"
    using run_function_state[of fn E v] by blast
  then show "snd (run_function E fn v) =
        Continue (results_clear E (dispatched_results E fn v)
                   (Restart E (Quiesce E
                      (Await E (dispatched_results E fn v) (snd (Execute E fn v))))))"
    by (simp add: released_def awaited_def)
  fix rest
  have "run_function E fn v = (fst (run_function E fn v), Continue (released E fn v))"
    using st by (simp add: prod_eq_iff)
  then show "run_function_list E (fn # rest) v =
         (fst (run_function E fn v) @
            fst (run_function_list E rest (released E fn v)),
          snd (run_function_list E rest (released E fn v)))"
    by (rule run_function_list_Cons_Continue)
qed

text \<open>
  C6 on the example runtime: \<open>fn_cancel\<close> leaves the host canceled, and the next
  function is dispatched in a state that is not canceled.
\<close>

theorem functions_run_one_after_another_witness:
  "runnable fn_cancel \<and>
   snd (run_function (test_env []) fn_cancel test_world0) \<noteq> LeakAbort \<and>
   canceled (snd (Execute (test_env []) fn_cancel test_world0)) \<and>
   \<not> canceled (released (test_env []) fn_cancel test_world0) \<and>
   run_function_list (test_env []) [fn_cancel, fn_void] test_world0 =
     (fst (run_function (test_env []) fn_cancel test_world0) @
        fst (run_function_list (test_env []) [fn_void]
               (released (test_env []) fn_cancel test_world0)),
      snd (run_function_list (test_env []) [fn_void]
             (released (test_env []) fn_cancel test_world0)))"
proof -
  let ?E = "test_env []"
  have r: "runnable fn_cancel" by (simp add: runnable_def fn_cancel_def)
  have ok: "snd (run_function ?E fn_cancel test_world0) \<noteq> LeakAbort"
    by (simp add: run_function_def test_env_def test_Execute_def fn_cancel_def test_world0_def
        Let_def split: prod.split)
  have c1: "canceled (snd (Execute ?E fn_cancel test_world0))"
    by (simp add: test_env_def test_Execute_def fn_cancel_def)
  have c2: "\<not> canceled (released ?E fn_cancel test_world0)"
    by (simp add: released_def test_env_def)
  have "run_function_list ?E (fn_cancel # [fn_void]) test_world0 =
     (fst (run_function ?E fn_cancel test_world0) @
        fst (run_function_list ?E [fn_void] (released ?E fn_cancel test_world0)),
      snd (run_function_list ?E [fn_void] (released ?E fn_cancel test_world0)))"
    using functions_run_one_after_another[of ?E "[]" test_world0 "test_config []" test_world0]
      r ok by blast
  with r ok c1 c2 show ?thesis by blast
qed

end
